theory Spec2Isabelle
  imports Main "HOL-Library.Signed_Division"
begin

section \<open>Strings and numbers of the JavaScript source\<close>

text \<open>
  The repository holds two versions of one Express server: \<^verbatim>\<open>server.js\<close> and an
  earlier file of the same program. Both are embedded; where a function exists in both
  under different names (\<^verbatim>\<open>fmt\<close>/\<^verbatim>\<open>formatTime\<close>,
  \<^verbatim>\<open>buildSRT\<close>/\<^verbatim>\<open>generateSRT\<close>, \<^verbatim>\<open>getBg\<close>/\<^verbatim>\<open>fetchPexelsVideo\<close>) each
  keeps its own name.

  Conventions of the embedding.
  \<^item> A JavaScript string is a \<open>string\<close>: the code units below 256. The characters
    that \<^verbatim>\<open>String.prototype.trim\<close> removes in that range are TAB, LF, VT, FF, CR,
    SPACE and NBSP.
  \<^item> A duration and every time offset is an \<open>int\<close>: whole seconds. On integers in the
    safe range \<^verbatim>\<open>Math.floor(a / b)\<close> is floor division (\<open>div\<close>), \<^verbatim>\<open>a % b\<close> is the
    remainder that takes the sign of the dividend (\<open>smod\<close>), and \<^verbatim>\<open>Math.ceil\<close>
    of an integer product is the product.
  \<^item> A thrown exception or a rejected promise is the \<open>Inl\<close> of a sum; \<^verbatim>\<open>await\<close>
    inside \<^verbatim>\<open>try\<close> passes \<open>Inl\<close> to the \<^verbatim>\<open>catch\<close> block.
\<close>

definition LF :: char where
  "LF = CHR 0x0A"

definition BACKSLASH :: char where
  "BACKSLASH = CHR 0x5C"

definition DQUOTE :: char where
  "DQUOTE = CHR 0x22"

text \<open>\<^verbatim>\<open>WhiteSpace\<close> and \<^verbatim>\<open>LineTerminator\<close> of ECMAScript, below 256.\<close>

definition is_js_space :: "char \<Rightarrow> bool" where
  "is_js_space c = (c \<in> set [CHR 0x09, CHR 0x0A, CHR 0x0B, CHR 0x0C, CHR 0x0D, CHR 0x20, CHR 0xA0])"

text \<open>\<^verbatim>\<open>s.trim()\<close>\<close>

definition trim :: "string \<Rightarrow> string" where
  "trim s = rev (dropWhile is_js_space (rev (dropWhile is_js_space s)))"

text \<open>
  \<^verbatim>\<open>s.split(sep)\<close> for a separator of one character: the pieces between the
  separators, the empty pieces too; the empty string gives one empty piece.
\<close>

fun split :: "char \<Rightarrow> string \<Rightarrow> string list" where
  "split sep [] = [[]]"
| "split sep (c # cs) =
     (if c = sep then [] # split sep cs
      else (case split sep cs of
              [] \<Rightarrow> [[c]]
            | piece # pieces \<Rightarrow> (c # piece) # pieces))"

text \<open>\<^verbatim>\<open>String(n)\<close> for an integer: decimal digits, with a minus sign below zero.\<close>

definition digit_char :: "nat \<Rightarrow> char" where
  "digit_char d = ''0123456789'' ! d"

fun digits :: "nat \<Rightarrow> string" where
  "digits n = (if n < 10 then [digit_char n] else digits (n div 10) @ [digit_char (n mod 10)])"

declare digits.simps [simp del]

definition String_of :: "int \<Rightarrow> string" where
  "String_of n = (if n < 0 then CHR ''-'' # digits (nat (- n)) else digits (nat n))"

text \<open>\<^verbatim>\<open>s.padStart(n, c)\<close> for a pad string of one character.\<close>

definition padStart :: "nat \<Rightarrow> char \<Rightarrow> string \<Rightarrow> string" where
  "padStart n c s = replicate (n - length s) c @ s"

section \<open>The subtitle builder\<close>

text \<open>
  \<^verbatim>\<open>
  function fmt(sec) {
    const h = String(Math.floor(sec / 3600)).padStart(2, '0');
    const m = String(Math.floor((sec % 3600) / 60)).padStart(2, '0');
    const s = String(Math.floor(sec % 60)).padStart(2, '0');
    return `${h}:${m}:${s},000`;
  }\<close>
\<close>

definition fmt :: "int \<Rightarrow> string" where
  "fmt sec =
    (let h = padStart 2 CHR ''0'' (String_of (sec div 3600));
         m = padStart 2 CHR ''0'' (String_of ((sec smod 3600) div 60));
         s = padStart 2 CHR ''0'' (String_of (sec smod 60))
     in h @ '':'' @ m @ '':'' @ s @ '',000'')"

text \<open>The earlier file has the same function under the name \<^verbatim>\<open>formatTime\<close>.\<close>

definition formatTime :: "int \<Rightarrow> string" where
  "formatTime sec =
    (let h = padStart 2 CHR ''0'' (String_of (sec div 3600));
         m = padStart 2 CHR ''0'' (String_of ((sec smod 3600) div 60));
         s = padStart 2 CHR ''0'' (String_of (sec smod 60))
     in h @ '':'' @ m @ '':'' @ s @ '',000'')"

text \<open>
  \<^verbatim>\<open>
  function buildSRT(script, dur) {
    const lines = script.split('\n').map(l => l.trim()).filter(Boolean);
    const per = Math.max(2, Math.floor(dur / lines.length));
    let srt = '';
    lines.forEach((l, i) => {
      const s = i * per, e = Math.min(s + per, dur);
      srt += `${i + 1}\n${fmt(s)} --> ${fmt(e)}\n${l}\n\n`;
    });
    return srt;
  }\<close>

  The function builds no track object: a cue is the four values the loop body computes
  and writes into one block of the text (\<open>i + 1\<close>, \<open>s\<close>, \<open>e\<close> and the line). With no
  line at all \<^verbatim>\<open>dur / 0\<close> is \<^verbatim>\<open>Infinity\<close> in JavaScript and \<open>0\<close> in HOL; the loop
  body, the only reader of \<open>per\<close>, does not run then.
\<close>

record cue =
  cue_index :: nat
  cue_start :: int
  cue_end :: int
  cue_text :: string

definition script_lines :: "string \<Rightarrow> string list" where
  "script_lines script = filter (\<lambda>l. l \<noteq> []) (map trim (split LF script))"

definition per_line :: "int \<Rightarrow> nat \<Rightarrow> int" where
  "per_line dur n = max 2 (dur div int n)"

definition cue_at :: "int \<Rightarrow> int \<Rightarrow> nat \<Rightarrow> string \<Rightarrow> cue" where
  "cue_at per dur i l =
    (let s = int i * per; e = min (s + per) dur
     in \<lparr>cue_index = i + 1, cue_start = s, cue_end = e, cue_text = l\<rparr>)"

definition cues :: "string \<Rightarrow> int \<Rightarrow> cue list" where
  "cues script dur =
    (let lines = script_lines script; per = per_line dur (length lines)
     in map (\<lambda>(i, l). cue_at per dur i l) (enumerate 0 lines))"

definition srt_block :: "cue \<Rightarrow> string" where
  "srt_block c =
     String_of (int (cue_index c)) @ [LF] @
     fmt (cue_start c) @ '' --> '' @ fmt (cue_end c) @ [LF] @
     cue_text c @ [LF, LF]"

definition buildSRT :: "string \<Rightarrow> int \<Rightarrow> string" where
  "buildSRT script dur =
    (let lines = script_lines script; per = per_line dur (length lines)
     in foldl (\<lambda>srt (i, l). srt @ srt_block (cue_at per dur i l)) [] (enumerate 0 lines))"

text \<open>\<^verbatim>\<open>generateSRT\<close> of the earlier file: the same loop, over \<^verbatim>\<open>formatTime\<close>.\<close>

definition generateSRT :: "string \<Rightarrow> int \<Rightarrow> string" where
  "generateSRT script duration =
    (let lines = script_lines script; perLine = per_line duration (length lines)
     in foldl (\<lambda>srt (i, line).
          (let c = cue_at perLine duration i line
           in srt @ String_of (int (cue_index c)) @ [LF] @
              formatTime (cue_start c) @ '' --> '' @ formatTime (cue_end c) @ [LF] @
              cue_text c @ [LF, LF]))
        [] (enumerate 0 lines))"

text \<open>Properties of a track, as the specification names them.\<close>

fun contiguous :: "cue list \<Rightarrow> bool" where
  "contiguous [] = True"
| "contiguous [c] = True"
| "contiguous (c # d # cs) = (cue_start d = cue_end c \<and> contiguous (d # cs))"

definition ordered :: "cue list \<Rightarrow> bool" where
  "ordered cs = list_all (\<lambda>c. cue_start c < cue_end c) cs"

definition within :: "int \<Rightarrow> cue list \<Rightarrow> bool" where
  "within dur cs = list_all (\<lambda>c. 0 \<le> cue_start c \<and> cue_end c \<le> dur) cs"

section \<open>JavaScript values, errors and property reads\<close>

text \<open>
  A thrown value is an \<^verbatim>\<open>Error\<close> object; its class and its \<^verbatim>\<open>message\<close> are kept.
\<close>

datatype js_error =
    ReferenceError string
  | TypeError string
  | RangeError string
  | PlainError string

fun message :: "js_error \<Rightarrow> string" where
  "message (ReferenceError m) = m"
| "message (TypeError m) = m"
| "message (RangeError m) = m"
| "message (PlainError m) = m"

text \<open>
  The values a response body parsed from JSON is made of, with \<^verbatim>\<open>undefined\<close> and
  function objects, which property reads can return. A number is an integer here: the
  code only tests numbers of a response for truthiness, where every fraction behaves as
  a non-zero integer does.
\<close>

datatype jsval =
    JUndefined
  | JNull
  | JBool bool
  | JNum int
  | JStr string
  | JArr "jsval list"
  | JObj "(string \<times> jsval) list"
  | JFun string

fun truthy :: "jsval \<Rightarrow> bool" where
  "truthy JUndefined = False"
| "truthy JNull = False"
| "truthy (JBool b) = b"
| "truthy (JNum n) = (n \<noteq> 0)"
| "truthy (JStr s) = (s \<noteq> [])"
| "truthy (JArr xs) = True"
| "truthy (JObj kvs) = True"
| "truthy (JFun f) = True"

fun nullish :: "jsval \<Rightarrow> bool" where
  "nullish JUndefined = True"
| "nullish JNull = True"
| "nullish v = False"

text \<open>Sequencing of steps that may throw: the first error ends the sequence.\<close>

definition and_then :: "js_error + 'a \<Rightarrow> ('a \<Rightarrow> js_error + 'b) \<Rightarrow> js_error + 'b" where
  "and_then m f = (case m of Inl e \<Rightarrow> Inl e | Inr x \<Rightarrow> f x)"

text \<open>
  \<^verbatim>\<open>v.k\<close> for the property names the source reads (\<^verbatim>\<open>videos\<close>, \<^verbatim>\<open>video_files\<close>,
  \<^verbatim>\<open>link\<close>, \<^verbatim>\<open>choices\<close>, \<^verbatim>\<open>message\<close>, \<^verbatim>\<open>content\<close>). Reading a property of
  \<^verbatim>\<open>undefined\<close> or \<^verbatim>\<open>null\<close> throws a TypeError. An object parsed from JSON gives
  its own property (the last of duplicate keys). Of the prototypes only
  \<^verbatim>\<open>String.prototype\<close> has one of these names: the method \<^verbatim>\<open>link\<close>.
\<close>

fun get_prop :: "jsval \<Rightarrow> string \<Rightarrow> js_error + jsval" where
  "get_prop JUndefined k =
     Inl (TypeError (''Cannot read properties of undefined (reading '' @ k @ '')''))"
| "get_prop JNull k =
     Inl (TypeError (''Cannot read properties of null (reading '' @ k @ '')''))"
| "get_prop (JObj kvs) k = Inr (case map_of (rev kvs) k of None \<Rightarrow> JUndefined | Some v \<Rightarrow> v)"
| "get_prop (JStr s) k = Inr (if k = ''link'' then JFun ''link'' else JUndefined)"
| "get_prop v k = Inr JUndefined"

text \<open>\<^verbatim>\<open>v[0]\<close>\<close>

fun get_first :: "jsval \<Rightarrow> js_error + jsval" where
  "get_first JUndefined = Inl (TypeError ''Cannot read properties of undefined (reading 0)'')"
| "get_first JNull = Inl (TypeError ''Cannot read properties of null (reading 0)'')"
| "get_first (JArr xs) = Inr (case xs of [] \<Rightarrow> JUndefined | x # _ \<Rightarrow> x)"
| "get_first (JStr s) = Inr (case s of [] \<Rightarrow> JUndefined | c # _ \<Rightarrow> JStr [c])"
| "get_first (JObj kvs) = Inr (case map_of (rev kvs) ''0'' of None \<Rightarrow> JUndefined | Some v \<Rightarrow> v)"
| "get_first v = Inr JUndefined"

text \<open>\<^verbatim>\<open>s.includes(needle)\<close> on a string: the needle occurs as a substring.\<close>

fun str_includes :: "string \<Rightarrow> string \<Rightarrow> bool" where
  "str_includes [] needle = (needle = [])"
| "str_includes (c # cs) needle = (take (length needle) (c # cs) = needle \<or> str_includes cs needle)"

text \<open>
  \<^verbatim>\<open>v.includes(needle)\<close> on any value: strings and arrays have the method, on every
  other value the call throws a TypeError.
\<close>

fun includes_call :: "jsval \<Rightarrow> string \<Rightarrow> js_error + bool" where
  "includes_call (JStr s) needle = Inr (str_includes s needle)"
| "includes_call (JArr xs) needle = Inr (JStr needle \<in> set xs)"
| "includes_call JUndefined needle =
     Inl (TypeError ''Cannot read properties of undefined (reading includes)'')"
| "includes_call JNull needle =
     Inl (TypeError ''Cannot read properties of null (reading includes)'')"
| "includes_call v needle = Inl (TypeError ''includes is not a function'')"

text \<open>\<^verbatim>\<open>s.replace(/c/g, rep)\<close> for a pattern of one character and a replacement without \<^verbatim>\<open>$\<close>.\<close>

fun replace_all :: "char \<Rightarrow> string \<Rightarrow> string \<Rightarrow> string" where
  "replace_all c rep [] = []"
| "replace_all c rep (x # xs) =
     (if x = c then rep @ replace_all c rep xs else x # replace_all c rep xs)"

text \<open>
  An identifier is resolved in the bindings in scope; one that no scope binds throws a
  ReferenceError.
\<close>

definition resolve_identifier :: "(string \<times> jsval) list \<Rightarrow> string \<Rightarrow> js_error + jsval" where
  "resolve_identifier scope name =
     (case map_of scope name of
        None \<Rightarrow> Inl (ReferenceError (name @ '' is not defined''))
      | Some v \<Rightarrow> Inr v)"

section \<open>The background resolver\<close>

text \<open>
  What the stock-footage service does with one search: no response at all (network
  error, timeout), or a response with a status and a body. \<^verbatim>\<open>axios.get\<close> rejects
  without a response and on a status outside 2xx.
\<close>

datatype http_result =
    NoResponse js_error
  | Response nat jsval

fun axios_get :: "http_result \<Rightarrow> js_error + jsval" where
  "axios_get (NoResponse e) = Inl e"
| "axios_get (Response st body) =
     (if 200 \<le> st \<and> st < 300 then Inr body
      else Inl (PlainError (''Request failed with status code '' @ digits st)))"

definition FALLBACK_URL :: string where
  "FALLBACK_URL = ''https://commondatastorage.googleapis.com/gtv-videos-bucket/sample/BigBuckBunny.mp4''"

text \<open>
  \<^verbatim>\<open>r.data.videos[0]?.video_files[0]?.link\<close>: an optional chain \<^verbatim>\<open>?.\<close> on
  \<^verbatim>\<open>undefined\<close> or \<^verbatim>\<open>null\<close> ends the whole expression with \<^verbatim>\<open>undefined\<close>; the
  reads written with a plain \<^verbatim>\<open>.\<close> or \<^verbatim>\<open>[0]\<close> throw there.
\<close>

definition first_link :: "jsval \<Rightarrow> js_error + jsval" where
  "first_link body =
     and_then (get_prop body ''videos'') (\<lambda>videos.
     and_then (get_first videos) (\<lambda>video.
       if nullish video then Inr JUndefined
       else and_then (get_prop video ''video_files'') (\<lambda>video_files.
            and_then (get_first video_files) (\<lambda>video_file.
              if nullish video_file then Inr JUndefined
              else get_prop video_file ''link''))))"

text \<open>
  \<^verbatim>\<open>
  async function getBg(style) {
    try {
      const q = style.includes('Professional') ? 'tech' : 'nature';
      const r = await axios.get('https://api.pexels.com/videos/search', {
        params: { query: q, per_page: 1 }, headers: { Authorization: '...' } });
      return r.data.videos[0]?.video_files[0]?.link || '<fallback>';
    } catch {
      return '<fallback>';
    }
  }\<close>
  The service is a function of the query it is sent.
\<close>

definition getBg :: "(jsval \<Rightarrow> http_result) \<Rightarrow> jsval \<Rightarrow> js_error + jsval" where
  "getBg service style =
     (case and_then (includes_call style ''Professional'') (\<lambda>professional.
             let q = (if professional then ''tech'' else ''nature'')
             in and_then (axios_get (service (JStr q))) (\<lambda>body.
                and_then (first_link body) (\<lambda>link.
                  Inr (if truthy link then link else JStr FALLBACK_URL)))) of
        Inl e \<Rightarrow> Inr (JStr FALLBACK_URL)
      | Inr url \<Rightarrow> Inr url)"

text \<open>
  \<^verbatim>\<open>
  async function fetchPexelsVideo(query) {
    try {
      const res = await axios.get('https://api.pexels.com/videos/search', {
        params: { query, per_page: 1, orientation: 'landscape' }, headers: { ... } });
      return res.data.videos[0]?.video_files[0]?.link || null;
    } catch {
      return '<fallback>';
    }
  }\<close>
\<close>

definition fetchPexelsVideo :: "(jsval \<Rightarrow> http_result) \<Rightarrow> jsval \<Rightarrow> js_error + jsval" where
  "fetchPexelsVideo service query =
     (case and_then (axios_get (service query)) (\<lambda>body.
           and_then (first_link body) (\<lambda>link.
             Inr (if truthy link then link else JNull))) of
        Inl e \<Rightarrow> Inr (JStr FALLBACK_URL)
      | Inr url \<Rightarrow> Inr url)"

section \<open>The server's world\<close>

text \<open>
  One response object per request (\<^verbatim>\<open>res\<close>), and what a handler can change outside
  it: directories and files on disk, the console (a line is kept without the time stamp
  that \<^verbatim>\<open>log\<close> puts before it), pending \<^verbatim>\<open>setTimeout\<close> callbacks, and the external
  calls made (downloads, runs of the transcoding engine, shell commands).
\<close>

datatype payload =
    NoPayload
  | JsonPayload jsval
  | PipedFile string

text \<open>
  A stream-end callback of the source schedules the removal of one directory after a
  delay and may write one console line.
\<close>

record stream_hook =
  hook_delay :: nat
  hook_dir :: string
  hook_log :: "string list"

text \<open>
  The response of one request, with the callback registered for the end of its stream
  (\<^verbatim>\<open>res.on('finish', ...)\<close> in \<^verbatim>\<open>server.js\<close>, \<^verbatim>\<open>stream.on('end', ...)\<close> on the
  file stream piped into it in the earlier file).
\<close>

record response =
  headersSent :: bool
  statusCode :: nat
  contentType :: "string option"
  body :: payload
  on_stream_end :: "stream_hook option"

definition fresh_response :: response where
  "fresh_response =
     \<lparr>headersSent = False, statusCode = 200, contentType = None, body = NoPayload,
      on_stream_end = None\<rparr>"

text \<open>One invocation of the transcoding engine, as the fluent-ffmpeg chain builds it.\<close>

record ffmpeg_cmd =
  cmd_inputs :: "string list"
  cmd_duration :: "int option"
  cmd_filters :: "string list"
  cmd_options :: "string list"
  cmd_output :: string

datatype call =
    Download jsval
  | Engine ffmpeg_cmd
  | Shell string

record world =
  dirs :: "string set"
  files :: "string \<rightharpoonup> string"
  console :: "string list"
  timers :: "(nat \<times> string) list"
  calls :: "call list"
  res :: response

text \<open>
  What lies outside the program: the identifier \<^verbatim>\<open>uuidv4()\<close> returns, the module's
  directory, the stock-footage service, the download of a URL (its bytes, or the failure
  of the request or of the write), the transcoding engine (the bytes of the output file,
  or its error event), the platform, the shell behind \<^verbatim>\<open>exec\<close> (the files a command
  writes, or its error), \<^verbatim>\<open>buffer.constants.MAX_LENGTH\<close> and the language model.
  Reads and writes of a job's own directory do not fail, beyond the argument check of
  \<^verbatim>\<open>fs.writeFile\<close>.
\<close>

record env =
  uuidv4 :: string
  dirname :: string
  pexels :: "jsval \<Rightarrow> http_result"
  fetch :: "jsval \<Rightarrow> js_error + string"
  engine :: "ffmpeg_cmd \<Rightarrow> js_error + string"
  platform :: string
  shell :: "string \<Rightarrow> js_error + (string \<times> string) list"
  kMaxLength :: int
  completion :: "string \<Rightarrow> string \<Rightarrow> js_error + jsval"

text \<open>A step of a handler: it may throw, and it changes the world either way.\<close>

type_synonym 'a step = "world \<Rightarrow> (js_error + 'a) \<times> world"

definition next_step :: "'a step \<Rightarrow> ('a \<Rightarrow> 'b step) \<Rightarrow> 'b step" where
  "next_step m f w = (case m w of (Inl e, w') \<Rightarrow> (Inl e, w') | (Inr x, w') \<Rightarrow> f x w')"

definition pure_step :: "js_error + 'a \<Rightarrow> 'a step" where
  "pure_step r w = (r, w)"

text \<open>\<^verbatim>\<open>path.join(a, b)\<close> on POSIX, for segments without separators or dots.\<close>

definition path_join :: "string \<Rightarrow> string \<Rightarrow> string" where
  "path_join a b = a @ ''/'' @ b"

definition under :: "string \<Rightarrow> string \<Rightarrow> bool" where
  "under d p = (p = d \<or> take (length d + 1) p = d @ ''/'')"

definition log :: "string \<Rightarrow> world \<Rightarrow> world" where
  "log m w = w\<lparr>console := console w @ [m]\<rparr>"

definition ensureDir :: "string \<Rightarrow> world \<Rightarrow> world" where
  "ensureDir d w = w\<lparr>dirs := insert d (dirs w)\<rparr>"

text \<open>\<^verbatim>\<open>fs.remove(d)\<close>: the directory and everything under it; nothing to do when absent.\<close>

definition remove :: "string \<Rightarrow> world \<Rightarrow> world" where
  "remove d w = w\<lparr>dirs := {p \<in> dirs w. \<not> under d p},
                  files := (\<lambda>p. if under d p then None else files w p)\<rparr>"

text \<open>
  \<^verbatim>\<open>fs.writeFile(path, data)\<close>: Node (version 14 and later, which the optional chaining
  of the source needs) rejects \<^verbatim>\<open>undefined\<close> data with a TypeError before it touches
  the disk.
\<close>

definition invalid_data :: js_error where
  "invalid_data = TypeError
     (''The '' @ [DQUOTE] @ ''data'' @ [DQUOTE] @
      '' argument must be of type string or an instance of Buffer, TypedArray, or DataView. Received undefined'')"

definition writeFile :: "string \<Rightarrow> string option \<Rightarrow> unit step" where
  "writeFile path data w =
     (case data of
        None \<Rightarrow> (Inl invalid_data, w)
      | Some d \<Rightarrow> (Inr (), w\<lparr>files := (files w)(path \<mapsto> d)\<rparr>))"

text \<open>
  \<^verbatim>\<open>axios({ url, responseType: 'stream' })\<close> piped into a write stream of \<open>path\<close>,
  awaited until \<^verbatim>\<open>finish\<close> or \<^verbatim>\<open>error\<close>.
\<close>

definition download_to :: "env \<Rightarrow> jsval \<Rightarrow> string \<Rightarrow> unit step" where
  "download_to e url path w =
     (let w' = w\<lparr>calls := calls w @ [Download url]\<rparr>
      in case fetch e url of
           Inl err \<Rightarrow> (Inl err, w')
         | Inr bytes \<Rightarrow> (Inr (), w'\<lparr>files := (files w')(path \<mapsto> bytes)\<rparr>))"

text \<open>One engine run, awaited until its \<^verbatim>\<open>end\<close> or \<^verbatim>\<open>error\<close> event.\<close>

definition run_engine :: "env \<Rightarrow> ffmpeg_cmd \<Rightarrow> unit step" where
  "run_engine e cmd w =
     (let w' = w\<lparr>calls := calls w @ [Engine cmd]\<rparr>
      in case engine e cmd of
           Inl err \<Rightarrow> (Inl err, w')
         | Inr bytes \<Rightarrow> (Inr (), w'\<lparr>files := (files w')(cmd_output cmd \<mapsto> bytes)\<rparr>))"

text \<open>
  \<^verbatim>\<open>Buffer.alloc(size, 0)\<close>: a RangeError for a size below zero or above the maximum
  length, else as many zero bytes as asked for.
\<close>

definition Buffer_alloc :: "int \<Rightarrow> int \<Rightarrow> js_error + string" where
  "Buffer_alloc max_length n =
     (if n < 0 \<or> max_length < n
      then Inl (RangeError ''The value of size is out of range.'')
      else Inr (replicate (nat n) (CHR 0x00)))"

text \<open>
  The response stream: \<^verbatim>\<open>res.set('Content-Type', 'video/mp4')\<close>, the final file
  piped into \<^verbatim>\<open>res\<close>, and the callback for the end of the stream registered. The
  handler returns here; the stream runs afterwards.
\<close>

definition start_stream :: "string \<Rightarrow> stream_hook \<Rightarrow> unit step" where
  "start_stream path hook w =
     (Inr (), w\<lparr>res := (res w)\<lparr>contentType := Some ''video/mp4'', body := PipedFile path,
                                  on_stream_end := Some hook\<rparr>\<rparr>)"

text \<open>
  The events after the handler has returned. When the stream has ended the registered
  callback runs: \<^verbatim>\<open>setTimeout(() => fs.remove(dir), 5000)\<close> and, in the earlier file,
  one console line. When the timers have run out each removes its directory.
\<close>

definition stream_ended :: "world \<Rightarrow> world" where
  "stream_ended w =
     (case on_stream_end (res w) of
        None \<Rightarrow> w
      | Some h \<Rightarrow> w\<lparr>timers := timers w @ [(hook_delay h, hook_dir h)],
                    console := console w @ hook_log h,
                    res := (res w)\<lparr>headersSent := True, on_stream_end := None\<rparr>\<rparr>)"

definition timers_elapsed :: "world \<Rightarrow> world" where
  "timers_elapsed w = foldl (\<lambda>w' (delay, d). remove d w') (w\<lparr>timers := []\<rparr>) (timers w)"

text \<open>
  The \<^verbatim>\<open>catch\<close> block of both video handlers:
  \<^verbatim>\<open>
    log('Video error: ' + e.message);
    await fs.remove(dir);
    if (!res.headersSent) res.status(500).json({ error: e.message });\<close>
\<close>

definition catch_block :: "string \<Rightarrow> string \<Rightarrow> js_error \<Rightarrow> world \<Rightarrow> world" where
  "catch_block label dir e w =
     (let w1 = log (label @ message e) w;
          w2 = remove dir w1
      in if \<not> headersSent (res w2)
         then w2\<lparr>res := (res w2)\<lparr>headersSent := True, statusCode := 500,
                                  contentType := Some ''application/json'',
                                  body := JsonPayload (JObj [(''error'', JStr (message e))])\<rparr>\<rparr>
         else w2)"

section \<open>The video route of \<^verbatim>\<open>server.js\<close>\<close>

text \<open>
  The body of a request to the video route, as \<^verbatim>\<open>express.json()\<close> hands it over: an
  object whose fields are strings, and a whole number for the duration, or absent
  (\<open>None\<close> is \<^verbatim>\<open>undefined\<close>). A request whose body is no object at all does not reach
  the code modelled here.
\<close>

record video_request =
  vr_script :: "string option"
  vr_srt :: "string option"
  vr_music :: "string option"
  vr_voice :: "string option"
  vr_duration :: "int option"

definition to_js :: "string option \<Rightarrow> jsval" where
  "to_js v = (case v of None \<Rightarrow> JUndefined | Some s \<Rightarrow> JStr s)"

definition SQUOTE :: char where
  "SQUOTE = CHR 0x27"

text \<open>
  \<^verbatim>\<open>
  const p = {
    bg: path.join(dir, 'bg.mp4'), tts: path.join(dir, 'tts.wav'),
    srt: path.join(dir, 'subs.srt'), vid: path.join(dir, 'video.mp4'),
    final: path.join(dir, 'final.mp4') };\<close>
\<close>

record asset_paths =
  p_bg :: string
  p_tts :: string
  p_srt :: string
  p_vid :: string
  p_final :: string

definition asset_paths_of :: "string \<Rightarrow> asset_paths" where
  "asset_paths_of dir =
     \<lparr>p_bg = path_join dir ''bg.mp4'', p_tts = path_join dir ''tts.wav'',
      p_srt = path_join dir ''subs.srt'', p_vid = path_join dir ''video.mp4'',
      p_final = path_join dir ''final.mp4''\<rparr>"

text \<open>
  The names bound where the handler calls \<^verbatim>\<open>getBg(style)\<close>: the handler's parameters
  and constants, the constants of the \<^verbatim>\<open>try\<close> block (not yet initialised there), the
  module's constants and functions, and the names Node gives every module. Functions
  and library objects are opaque (\<open>JFun\<close>). The global object of Node has no property
  \<^verbatim>\<open>style\<close>.
\<close>

definition node_scope :: "(string \<times> jsval) list" where
  "node_scope = map (\<lambda>n. (n, JFun n))
     [''require'', ''module'', ''exports'', ''__filename'', ''__dirname'', ''process'', ''console'',
      ''Buffer'', ''Math'', ''String'', ''Boolean'', ''Promise'', ''Date'', ''setTimeout'']"

definition module_scope :: "(string \<times> jsval) list" where
  "module_scope = map (\<lambda>n. (n, JFun n))
     [''express'', ''OpenAI'', ''ffmpeg'', ''ffmpegStatic'', ''axios'', ''fs'', ''path'', ''uuidv4'',
      ''app'', ''XAI_KEY'', ''openai'', ''TEMP'', ''log'', ''fmt'', ''buildSRT'', ''getBg'']"

definition video_scope :: "video_request \<Rightarrow> string \<Rightarrow> string \<Rightarrow> (string \<times> jsval) list" where
  "video_scope req job dir =
     [(''req'', JFun ''req''), (''res'', JFun ''res''),
      (''script'', to_js (vr_script req)),
      (''srt'', to_js (vr_srt req)),
      (''music'', (case vr_music req of None \<Rightarrow> JStr ''none'' | Some m \<Rightarrow> JStr m)),
      (''voice'', to_js (vr_voice req)),
      (''duration'', JNum (case vr_duration req of None \<Rightarrow> 60 | Some d \<Rightarrow> d)),
      (''job'', JStr job), (''dir'', JStr dir), (''p'', JFun ''p''),
      (''bgUrl'', JUndefined), (''bgStream'', JUndefined), (''silence'', JUndefined)]
     @ module_scope @ node_scope"

text \<open>
  The three engine runs:
  \<^verbatim>\<open>
  ffmpeg(p.bg).setDuration(duration).outputOptions('-c copy').save(p.vid)
  ffmpeg(p.vid).input(p.tts).outputOptions('-c:v copy', '-c:a aac', '-shortest').save(p.vid)
  ffmpeg(p.vid)
    .videoFilters(`subtitles=${p.srt.replace(/:/g, '\\:')}:force_style='Fontsize=28,PrimaryColour=&Hffffff&,Bold=1'`)
    .outputOptions('-c:v libx264', '-pix_fmt yuv420p').save(p.final)\<close>
\<close>

definition trim_cmd :: "asset_paths \<Rightarrow> int \<Rightarrow> ffmpeg_cmd" where
  "trim_cmd p duration =
     \<lparr>cmd_inputs = [p_bg p], cmd_duration = Some duration, cmd_filters = [],
      cmd_options = [''-c copy''], cmd_output = p_vid p\<rparr>"

definition overlay_cmd :: "asset_paths \<Rightarrow> ffmpeg_cmd" where
  "overlay_cmd p =
     \<lparr>cmd_inputs = [p_vid p, p_tts p], cmd_duration = None, cmd_filters = [],
      cmd_options = [''-c:v copy'', ''-c:a aac'', ''-shortest''], cmd_output = p_vid p\<rparr>"

definition subtitles_filter :: "string \<Rightarrow> string" where
  "subtitles_filter srt_path =
     ''subtitles='' @ replace_all CHR '':'' [BACKSLASH, CHR '':''] srt_path @
     '':force_style='' @ [SQUOTE] @ ''Fontsize=28,PrimaryColour=&Hffffff&,Bold=1'' @ [SQUOTE]"

definition burn_cmd :: "asset_paths \<Rightarrow> ffmpeg_cmd" where
  "burn_cmd p =
     \<lparr>cmd_inputs = [p_vid p], cmd_duration = None, cmd_filters = [subtitles_filter (p_srt p)],
      cmd_options = [''-c:v libx264'', ''-pix_fmt yuv420p''], cmd_output = p_final p\<rparr>"

text \<open>
  The narration step:
  \<^verbatim>\<open>
    // TTS (silence fallback)
    const silence = Buffer.alloc(Math.ceil(duration * 16000 * 2), 0);
    await fs.writeFile(p.tts, silence);\<close>
\<close>

definition silence_step :: "env \<Rightarrow> asset_paths \<Rightarrow> int \<Rightarrow> unit step" where
  "silence_step e p duration =
     next_step (pure_step (Buffer_alloc (kMaxLength e) (duration * 16000 * 2)))
       (\<lambda>silence. writeFile (p_tts p) (Some silence))"

text \<open>
  The \<^verbatim>\<open>try\<close> block from the download on (\<open>bgUrl\<close> in hand), and the whole block.
  The stream-end callback is \<^verbatim>\<open>res.on('finish', () => setTimeout(() => fs.remove(dir), 5000))\<close>.
\<close>

definition after_bgUrl :: "env \<Rightarrow> asset_paths \<Rightarrow> int \<Rightarrow> string \<Rightarrow> jsval \<Rightarrow> unit step" where
  "after_bgUrl e p duration dir bgUrl =
     next_step (download_to e bgUrl (p_bg p)) (\<lambda>_.
     next_step (run_engine e (trim_cmd p duration)) (\<lambda>_.
     next_step (silence_step e p duration) (\<lambda>_.
     next_step (run_engine e (overlay_cmd p)) (\<lambda>_.
     next_step (run_engine e (burn_cmd p)) (\<lambda>_.
     start_stream (p_final p) \<lparr>hook_delay = 5000, hook_dir = dir, hook_log = []\<rparr>)))))"

definition try_block :: "env \<Rightarrow> (string \<times> jsval) list \<Rightarrow> asset_paths \<Rightarrow> string option \<Rightarrow> int \<Rightarrow>
    string \<Rightarrow> unit step" where
  "try_block e scope p srt duration dir =
     next_step (writeFile (p_srt p) srt) (\<lambda>_.
     next_step (pure_step (resolve_identifier scope ''style'')) (\<lambda>style.
     next_step (pure_step (getBg (pexels e) style)) (\<lambda>bgUrl.
     after_bgUrl e p duration dir bgUrl)))"

text \<open>
  \<^verbatim>\<open>
  app.post('/api/generate-video', async (req, res) => {
    const { script, srt, music = 'none', voice, duration = 60 } = req.body;
    const job = uuidv4();
    const dir = path.join(TEMP, job);
    await fs.ensureDir(dir);
    const p = { ... };
    try { ... } catch (e) { ... }
  });\<close>
\<close>

definition job_dir :: "env \<Rightarrow> string" where
  "job_dir e = path_join (path_join (dirname e) ''temp'') (uuidv4 e)"

definition generate_video :: "env \<Rightarrow> video_request \<Rightarrow> world \<Rightarrow> world" where
  "generate_video e req w0 =
     (let w = w0\<lparr>res := fresh_response\<rparr>;
          srt = vr_srt req;
          duration = (case vr_duration req of None \<Rightarrow> 60 | Some d \<Rightarrow> d);
          job = uuidv4 e;
          dir = path_join (path_join (dirname e) ''temp'') job;
          w1 = ensureDir dir w;
          p = asset_paths_of dir
      in case try_block e (video_scope req job dir) p srt duration dir w1 of
           (Inr _, w2) \<Rightarrow> w2
         | (Inl err, w2) \<Rightarrow> catch_block ''Video error: '' dir err w2)"

section \<open>The video route of the earlier file\<close>

text \<open>
  \<^verbatim>\<open>
  const files = {
    bg: path.join(dir, 'bg.mp4'), audio: path.join(dir, 'voice.aiff'),
    srt: path.join(dir, 'subs.srt'), temp: path.join(dir, 'temp.mp4'),
    final: path.join(dir, 'final.mp4') };\<close>
\<close>

record job_files =
  f_bg :: string
  f_audio :: string
  f_srt :: string
  f_temp :: string
  f_final :: string

definition job_files_of :: "string \<Rightarrow> job_files" where
  "job_files_of dir =
     \<lparr>f_bg = path_join dir ''bg.mp4'', f_audio = path_join dir ''voice.aiff'',
      f_srt = path_join dir ''subs.srt'', f_temp = path_join dir ''temp.mp4'',
      f_final = path_join dir ''final.mp4''\<rparr>"

definition module_scope_prev :: "(string \<times> jsval) list" where
  "module_scope_prev = map (\<lambda>n. (n, JFun n))
     [''express'', ''OpenAI'', ''ffmpeg'', ''ffmpegStatic'', ''axios'', ''fs'', ''path'', ''uuidv4'',
      ''app'', ''XAI_API_KEY'', ''openai'', ''TEMP_DIR'', ''log'', ''formatTime'', ''generateSRT'',
      ''fetchPexelsVideo'', ''generateTTS'', ''PORT'']"

definition video_scope_prev :: "video_request \<Rightarrow> string \<Rightarrow> string \<Rightarrow> (string \<times> jsval) list" where
  "video_scope_prev req jobId dir =
     [(''req'', JFun ''req''), (''res'', JFun ''res''),
      (''script'', to_js (vr_script req)),
      (''srt'', to_js (vr_srt req)),
      (''music'', to_js (vr_music req)),
      (''voice'', to_js (vr_voice req)),
      (''duration'', JNum (case vr_duration req of None \<Rightarrow> 60 | Some d \<Rightarrow> d)),
      (''jobId'', JStr jobId), (''dir'', JStr dir), (''files'', JFun ''files''),
      (''bgUrl'', JUndefined), (''bgRes'', JUndefined), (''stream'', JUndefined)]
     @ module_scope_prev @ node_scope"

text \<open>
  \<^verbatim>\<open>
  function generateTTS(text, voice, outputPath) {
    return new Promise((resolve, reject) => {
      // Simple fallback: use macOS 'say' command or skip
      const cmd = process.platform === 'darwin'
        ? `say -v ${voice.includes('Female') ? 'Samantha' : 'Alex'} "${text.replace(/"/g, '\\"')}" -o "${outputPath}"`
        : `echo "TTS not supported on this OS" > "${outputPath}"`;
      require('child_process').exec(cmd, (err) => { if (err) reject(err); else resolve(); });
    });
  }\<close>
  An exception in the executor rejects the promise, as the error of \<^verbatim>\<open>exec\<close> does.
\<close>

definition tts_command :: "string \<Rightarrow> string option \<Rightarrow> string option \<Rightarrow> string \<Rightarrow> js_error + string" where
  "tts_command plat text voice outputPath =
     (if plat = ''darwin''
      then and_then (includes_call (to_js voice) ''Female'') (\<lambda>female.
           and_then (case text of
                       None \<Rightarrow> Inl (TypeError ''Cannot read properties of undefined (reading replace)'')
                     | Some t \<Rightarrow> Inr (replace_all DQUOTE [BACKSLASH, DQUOTE] t)) (\<lambda>quoted.
             Inr (''say -v '' @ (if female then ''Samantha'' else ''Alex'') @ '' '' @
                  [DQUOTE] @ quoted @ [DQUOTE] @ '' -o '' @ [DQUOTE] @ outputPath @ [DQUOTE])))
      else Inr (''echo '' @ [DQUOTE] @ ''TTS not supported on this OS'' @ [DQUOTE] @ '' > '' @
                [DQUOTE] @ outputPath @ [DQUOTE]))"

definition generateTTS :: "env \<Rightarrow> string option \<Rightarrow> string option \<Rightarrow> string \<Rightarrow> unit step" where
  "generateTTS e text voice outputPath w =
     (case tts_command (platform e) text voice outputPath of
        Inl err \<Rightarrow> (Inl err, w)
      | Inr cmd \<Rightarrow>
          (let w' = w\<lparr>calls := calls w @ [Shell cmd]\<rparr>
           in case shell e cmd of
                Inl err \<Rightarrow> (Inl err, w')
              | Inr written \<Rightarrow> (Inr (), w'\<lparr>files := files w' ++ map_of written\<rparr>)))"

definition trim_cmd_prev :: "job_files \<Rightarrow> int \<Rightarrow> ffmpeg_cmd" where
  "trim_cmd_prev f duration =
     \<lparr>cmd_inputs = [f_bg f], cmd_duration = Some duration, cmd_filters = [],
      cmd_options = [''-c copy''], cmd_output = f_temp f\<rparr>"

definition overlay_cmd_prev :: "job_files \<Rightarrow> ffmpeg_cmd" where
  "overlay_cmd_prev f =
     \<lparr>cmd_inputs = [f_temp f, f_audio f], cmd_duration = None, cmd_filters = [],
      cmd_options = [''-c:v copy'', ''-c:a aac'', ''-shortest''], cmd_output = f_temp f\<rparr>"

definition subtitles_filter_prev :: "string \<Rightarrow> string" where
  "subtitles_filter_prev srt_path =
     ''subtitles='' @ replace_all CHR '':'' [BACKSLASH, CHR '':''] srt_path @
     '':force_style='' @ [SQUOTE] @
     ''Fontsize=24,PrimaryColour=&Hffffff&,OutlineColour=&H0&,BackColour=&H80000000&,Bold=1'' @
     [SQUOTE]"

definition burn_cmd_prev :: "job_files \<Rightarrow> ffmpeg_cmd" where
  "burn_cmd_prev f =
     \<lparr>cmd_inputs = [f_temp f], cmd_duration = None,
      cmd_filters = [subtitles_filter_prev (f_srt f)],
      cmd_options = [''-c:v libx264'', ''-pix_fmt yuv420p''], cmd_output = f_final f\<rparr>"

text \<open>
  The stream-end callback of this file is
  \<^verbatim>\<open>stream.on('end', () => { setTimeout(() => fs.remove(dir), 5000); log(`Video sent: ${jobId}`); })\<close>.
\<close>

definition after_bgUrl_prev :: "env \<Rightarrow> job_files \<Rightarrow> string option \<Rightarrow> string option \<Rightarrow> int \<Rightarrow>
    string \<Rightarrow> string \<Rightarrow> jsval \<Rightarrow> unit step" where
  "after_bgUrl_prev e f script voice duration dir jobId bgUrl =
     next_step (download_to e bgUrl (f_bg f)) (\<lambda>_.
     next_step (run_engine e (trim_cmd_prev f duration)) (\<lambda>_.
     next_step (generateTTS e script voice (f_audio f)) (\<lambda>_.
     next_step (run_engine e (overlay_cmd_prev f)) (\<lambda>_.
     next_step (run_engine e (burn_cmd_prev f)) (\<lambda>_.
     start_stream (f_final f)
       \<lparr>hook_delay = 5000, hook_dir = dir, hook_log = [''Video sent: '' @ jobId]\<rparr>)))))"

definition try_block_prev :: "env \<Rightarrow> (string \<times> jsval) list \<Rightarrow> job_files \<Rightarrow> video_request \<Rightarrow> int \<Rightarrow>
    string \<Rightarrow> string \<Rightarrow> unit step" where
  "try_block_prev e scope f req duration dir jobId w =
     next_step (writeFile (f_srt f) (vr_srt req)) (\<lambda>_.
     next_step (pure_step (resolve_identifier scope ''style'')) (\<lambda>style.
     next_step (pure_step (fetchPexelsVideo (pexels e) style)) (\<lambda>bgUrl.
     after_bgUrl_prev e f (vr_script req) (vr_voice req) duration dir jobId bgUrl)))
       (log (''Starting video job '' @ jobId) w)"

definition generate_video_prev :: "env \<Rightarrow> video_request \<Rightarrow> world \<Rightarrow> world" where
  "generate_video_prev e req w0 =
     (let w = w0\<lparr>res := fresh_response\<rparr>;
          duration = (case vr_duration req of None \<Rightarrow> 60 | Some d \<Rightarrow> d);
          jobId = uuidv4 e;
          dir = path_join (path_join (dirname e) ''temp'') jobId;
          w1 = ensureDir dir w;
          f = job_files_of dir
      in case try_block_prev e (video_scope_prev req jobId dir) f req duration dir jobId w1 of
           (Inr _, w2) \<Rightarrow> w2
         | (Inl err, w2) \<Rightarrow> catch_block ''Video failed: '' dir err w2)"

section \<open>The script route of \<^verbatim>\<open>server.js\<close>\<close>

text \<open>
  \<^verbatim>\<open>
  app.post('/api/generate-script', async (req, res) => {
    const { topic, duration = 60, style, voice, unlimited } = req.body;
    const model = unlimited ? 'grok-4' : 'grok-3-mini';
    const prompt = `Write a ${duration}s video script about "${topic}". Style: ${style}. Voice: ${voice}. One short line per subtitle.`;
    try {
      const c = await openai.chat.completions.create({ model, messages: [...], ... });
      const script = c.choices[0].message.content.trim();
      res.json({ script, srt: buildSRT(script, duration) });
    } catch (e) {
      log('Script error: ' + e.message);
      res.status(500).json({ error: e.message });
    }
  });\<close>
\<close>

record script_request =
  sr_topic :: "string option"
  sr_duration :: "int option"
  sr_style :: "string option"
  sr_voice :: "string option"
  sr_unlimited :: bool

definition interpolate :: "string option \<Rightarrow> string" where
  "interpolate v = (case v of None \<Rightarrow> ''undefined'' | Some s \<Rightarrow> s)"

fun trim_call :: "jsval \<Rightarrow> js_error + string" where
  "trim_call (JStr s) = Inr (trim s)"
| "trim_call JUndefined = Inl (TypeError ''Cannot read properties of undefined (reading trim)'')"
| "trim_call JNull = Inl (TypeError ''Cannot read properties of null (reading trim)'')"
| "trim_call v = Inl (TypeError ''trim is not a function'')"

definition script_prompt :: "script_request \<Rightarrow> int \<Rightarrow> string" where
  "script_prompt req duration =
     ''Write a '' @ String_of duration @ ''s video script about '' @ [DQUOTE] @
     interpolate (sr_topic req) @ [DQUOTE] @ ''. Style: '' @ interpolate (sr_style req) @
     ''. Voice: '' @ interpolate (sr_voice req) @ ''. One short line per subtitle.''"

definition generate_script :: "env \<Rightarrow> script_request \<Rightarrow> world \<Rightarrow> world" where
  "generate_script e req w0 =
     (let w = w0\<lparr>res := fresh_response\<rparr>;
          duration = (case sr_duration req of None \<Rightarrow> 60 | Some d \<Rightarrow> d);
          model = (if sr_unlimited req then ''grok-4'' else ''grok-3-mini'');
          prompt = script_prompt req duration
      in case and_then (completion e model prompt) (\<lambda>c.
              and_then (get_prop c ''choices'') (\<lambda>choices.
              and_then (get_first choices) (\<lambda>choice.
              and_then (get_prop choice ''message'') (\<lambda>msg.
              and_then (get_prop msg ''content'') (\<lambda>content.
              and_then (trim_call content) (\<lambda>script.
                Inr (script, buildSRT script duration))))))) of
           Inr (script, srt) \<Rightarrow>
             w\<lparr>res := (res w)\<lparr>headersSent := True, contentType := Some ''application/json'',
                                body := JsonPayload (JObj [(''script'', JStr script), (''srt'', JStr srt)])\<rparr>\<rparr>
         | Inl err \<Rightarrow>
             (let w1 = log (''Script error: '' @ message err) w
              in w1\<lparr>res := (res w1)\<lparr>headersSent := True, statusCode := 500,
                                     contentType := Some ''application/json'',
                                     body := JsonPayload (JObj [(''error'', JStr (message err))])\<rparr>\<rparr>))"

section \<open>A reader of the timed-text format\<close>

text \<open>
  Modelled from the spec: the repository writes subtitle text and never reads it back, so
  the reader below follows the format as the specification gives it: blocks of a
  sequential number, a line \<^verbatim>\<open>HH:MM:SS,mmm --> HH:MM:SS,mmm\<close>, one text line and a
  blank line. It reads times to the millisecond.
\<close>

fun index_of :: "'a \<Rightarrow> 'a list \<Rightarrow> nat option" where
  "index_of x [] = None"
| "index_of x (y # ys) = (if x = y then Some 0 else map_option Suc (index_of x ys))"

definition digit_val :: "char \<Rightarrow> nat option" where
  "digit_val c = index_of c ''0123456789''"

fun parse_digits :: "nat \<Rightarrow> string \<Rightarrow> nat option" where
  "parse_digits acc [] = Some acc"
| "parse_digits acc (c # cs) =
     (case digit_val c of None \<Rightarrow> None | Some d \<Rightarrow> parse_digits (10 * acc + d) cs)"

definition parse_nat :: "string \<Rightarrow> nat option" where
  "parse_nat s = (if s = [] then None else parse_digits 0 s)"

text \<open>A time \<^verbatim>\<open>H:M:S,m\<close>, in milliseconds.\<close>

definition parse_time :: "string \<Rightarrow> nat option" where
  "parse_time s =
     (case split CHR '':'' s of
        [h, m, rest] \<Rightarrow>
          (case split CHR '','' rest of
             [sec, ms] \<Rightarrow>
               (case (parse_nat h, parse_nat m, parse_nat sec, parse_nat ms) of
                  (Some h', Some m', Some s', Some ms') \<Rightarrow>
                    Some (((h' * 60 + m') * 60 + s') * 1000 + ms')
                | _ \<Rightarrow> None)
           | _ \<Rightarrow> None)
      | _ \<Rightarrow> None)"

definition parse_range :: "string \<Rightarrow> (nat \<times> nat) option" where
  "parse_range s =
     (case split CHR '' '' s of
        [a, arrow, b] \<Rightarrow>
          (if arrow = ''-->''
           then (case (parse_time a, parse_time b) of
                   (Some t1, Some t2) \<Rightarrow> Some (t1, t2)
                 | _ \<Rightarrow> None)
           else None)
      | _ \<Rightarrow> None)"

record timed_cue =
  tc_index :: nat
  tc_start_ms :: nat
  tc_end_ms :: nat
  tc_text :: string

fun parse_blocks :: "string list \<Rightarrow> timed_cue list option" where
  "parse_blocks (n # t # x # b # rest) =
     (if x = [] \<or> b \<noteq> [] then None
      else (case (parse_nat n, parse_range t, parse_blocks rest) of
              (Some i, Some (t1, t2), Some cs) \<Rightarrow>
                Some (\<lparr>tc_index = i, tc_start_ms = t1, tc_end_ms = t2, tc_text = x\<rparr> # cs)
            | _ \<Rightarrow> None))"
| "parse_blocks [l] = (if l = [] then Some [] else None)"
| "parse_blocks ls = None"

text \<open>
  Modelled from the spec: the reader of a whole text, line by line; \<open>None\<close> when the
  text is not a sequence of such blocks.
\<close>

definition parseSRT :: "string \<Rightarrow> timed_cue list option" where
  "parseSRT s = parse_blocks (split LF s)"

text \<open>A cue of the builder, its offsets in milliseconds.\<close>

definition in_ms :: "cue \<Rightarrow> timed_cue" where
  "in_ms c = \<lparr>tc_index = cue_index c, tc_start_ms = nat (cue_start c) * 1000,
              tc_end_ms = nat (cue_end c) * 1000, tc_text = cue_text c\<rparr>"

text \<open>
  What the reader relies on in a cue: offsets that are not negative, and a text line
  that is not empty and has no line break.
\<close>

definition well_formed_cue :: "cue \<Rightarrow> bool" where
  "well_formed_cue c =
     (0 \<le> cue_start c \<and> 0 \<le> cue_end c \<and> cue_text c \<noteq> [] \<and> LF \<notin> set (cue_text c))"

text \<open>A cue that was read, its offsets in whole seconds.\<close>

definition in_seconds :: "timed_cue \<Rightarrow> cue" where
  "in_seconds t = \<lparr>cue_index = tc_index t, cue_start = int (tc_start_ms t div 1000),
                   cue_end = int (tc_end_ms t div 1000), cue_text = tc_text t\<rparr>"

section \<open>The exits of a job\<close>

text \<open>
  What the \<^verbatim>\<open>try\<close> block of a video handler has come to, seen from the job's
  directory. When the block threw, the \<^verbatim>\<open>catch\<close> block runs at once and the
  directory is gone after it. When the block ran through, the stream-end callback is
  registered: once the stream has ended it sets a timer of 5000 ms for this directory,
  and when the timers have run out the directory is gone.
\<close>

definition leaves_no_workspace :: "string \<Rightarrow> string \<Rightarrow> (js_error + unit) \<times> world \<Rightarrow> bool" where
  "leaves_no_workspace label dir outcome =
     (case outcome of
        (Inl err, w') \<Rightarrow> dir \<notin> dirs (catch_block label dir err w')
      | (Inr u, w') \<Rightarrow>
          (case on_stream_end (res w') of
             None \<Rightarrow> False
           | Some h \<Rightarrow> hook_dir h = dir \<and> hook_delay h = 5000
                      \<and> timers (stream_ended w') = timers w' @ [(5000, dir)]
                      \<and> dir \<notin> dirs (timers_elapsed (stream_ended w'))))"

section \<open>Sample inputs\<close>

text \<open>
  One environment, world and request on which the theorems below are evaluated: the
  search finds one video, every download, engine run and shell command succeeds.
\<close>

definition one_video :: jsval where
  "one_video = JObj [(''videos'', JArr [JObj [(''video_files'',
                 JArr [JObj [(''link'', JStr ''https://videos.example/clip.mp4'')]])]])]"

definition sample_env :: env where
  "sample_env =
     \<lparr>uuidv4 = ''job-1'', dirname = ''/app'',
      pexels = (\<lambda>q. Response 200 one_video),
      fetch = (\<lambda>url. Inr ''mp4-bytes''),
      engine = (\<lambda>cmd. Inr ''mp4-bytes''),
      platform = ''linux'',
      shell = (\<lambda>cmd. Inr []),
      kMaxLength = 4294967296,
      completion = (\<lambda>model prompt.
         Inr (JObj [(''choices'', JArr [JObj [(''message'', JObj [(''content'', JStr '' '')])]])]))\<rparr>"

definition empty_world :: world where
  "empty_world =
     \<lparr>dirs = {}, files = Map.empty, console = [], timers = [], calls = [],
      res = fresh_response\<rparr>"

definition sample_request :: video_request where
  "sample_request =
     \<lparr>vr_script = Some ''Hello world.'', vr_srt = Some ''1'', vr_music = None,
      vr_voice = Some ''Female'', vr_duration = Some 10\<rparr>"

text \<open>The request with the body \<^verbatim>\<open>{}\<close>: every field absent.\<close>

definition bare_request :: video_request where
  "bare_request =
     \<lparr>vr_script = None, vr_srt = None, vr_music = None, vr_voice = None, vr_duration = None\<rparr>"

definition sample_script_request :: script_request where
  "sample_script_request =
     \<lparr>sr_topic = Some ''cats'', sr_duration = Some 10, sr_style = Some ''Professional'',
      sr_voice = Some ''Female'', sr_unlimited = False\<rparr>"

section \<open>Evaluation lemmas\<close>

lemma formatTime_eq_fmt: "formatTime sec = fmt sec"
  by (simp add: formatTime_def fmt_def)

lemma foldl_append_blocks: "foldl (\<lambda>acc x. acc @ f x) a xs = a @ concat (map f xs)"
  by (induction xs arbitrary: a) simp_all

lemma buildSRT_concat: "buildSRT script dur = concat (map srt_block (cues script dur))"
proof -
  have "(\<lambda>srt (i, l). srt @ srt_block (cue_at p dur i l)) =
        (\<lambda>srt x. srt @ (\<lambda>(i, l). srt_block (cue_at p dur i l)) x)" for p
    by (simp add: fun_eq_iff split: prod.splits)
  then show ?thesis
    by (simp add: buildSRT_def cues_def Let_def foldl_append_blocks comp_def case_prod_unfold)
qed

lemma generateSRT_eq_buildSRT: "generateSRT script dur = buildSRT script dur"
  by (simp add: generateSRT_def buildSRT_def srt_block_def formatTime_eq_fmt Let_def)

section \<open>The worked scenario\<close>

text \<open>
  Claim C8. For the script "Hello world." / line break / "This is a test." and the
  duration 10 the builder computes exactly two cues, from 0 to 5 and from 5 to 10
  seconds, and both versions of the builder write them as the two blocks below.
\<close>

theorem hello_world_scenario:
  "cues (''Hello world.'' @ [LF] @ ''This is a test.'') 10 =
     [\<lparr>cue_index = 1, cue_start = 0, cue_end = 5, cue_text = ''Hello world.''\<rparr>,
      \<lparr>cue_index = 2, cue_start = 5, cue_end = 10, cue_text = ''This is a test.''\<rparr>]
   \<and> buildSRT (''Hello world.'' @ [LF] @ ''This is a test.'') 10 =
       ''1'' @ [LF] @ ''00:00:00,000 --> 00:00:05,000'' @ [LF] @ ''Hello world.'' @ [LF, LF] @
       ''2'' @ [LF] @ ''00:00:05,000 --> 00:00:10,000'' @ [LF] @ ''This is a test.'' @ [LF, LF]
   \<and> generateSRT (''Hello world.'' @ [LF] @ ''This is a test.'') 10 =
       buildSRT (''Hello world.'' @ [LF] @ ''This is a test.'') 10"
proof -
  have l: "script_lines (''Hello world.'' @ [LF] @ ''This is a test.'') =
           [''Hello world.'', ''This is a test.'']"
    by (simp add: script_lines_def trim_def is_js_space_def LF_def)
  have c: "cues (''Hello world.'' @ [LF] @ ''This is a test.'') 10 =
     [\<lparr>cue_index = 1, cue_start = 0, cue_end = 5, cue_text = ''Hello world.''\<rparr>,
      \<lparr>cue_index = 2, cue_start = 5, cue_end = 10, cue_text = ''This is a test.''\<rparr>]"
    unfolding cues_def l
    by (simp add: Let_def per_line_def cue_at_def enumerate_eq_zip upt_rec)
  have f: "fmt 0 = ''00:00:00,000''" "fmt 5 = ''00:00:05,000''" "fmt 10 = ''00:00:10,000''"
    by (simp_all add: fmt_def padStart_def String_of_def digits.simps digit_char_def
        signed_modulo_int_def)
  have s: "String_of 1 = ''1''" "String_of 2 = ''2''"
    by (simp_all add: String_of_def digits.simps digit_char_def)
  show ?thesis
    unfolding generateSRT_eq_buildSRT buildSRT_concat c
    by (simp add: srt_block_def f s)
qed

section \<open>The cues of a track\<close>

lemma length_cues: "length (cues script dur) = length (script_lines script)"
  by (simp add: cues_def Let_def)

lemma nth_cues:
  "i < length (script_lines script) \<Longrightarrow>
   cues script dur ! i =
     cue_at (per_line dur (length (script_lines script))) dur i (script_lines script ! i)"
  by (simp add: cues_def Let_def nth_enumerate_eq)

lemma contiguous_iff_nth:
  "contiguous cs \<longleftrightarrow> (\<forall>i. Suc i < length cs \<longrightarrow> cue_start (cs ! Suc i) = cue_end (cs ! i))"
proof (induction cs rule: contiguous.induct)
  case 1
  then show ?case by simp
next
  case (2 c)
  then show ?case by simp
next
  case (3 c d cs)
  show ?case
  proof
    assume a: "contiguous (c # d # cs)"
    show "\<forall>i. Suc i < length (c # d # cs) \<longrightarrow>
              cue_start ((c # d # cs) ! Suc i) = cue_end ((c # d # cs) ! i)"
    proof (intro allI impI)
      fix i assume "Suc i < length (c # d # cs)"
      with a 3 show "cue_start ((c # d # cs) ! Suc i) = cue_end ((c # d # cs) ! i)"
        by (cases i) auto
    qed
  next
    assume a: "\<forall>i. Suc i < length (c # d # cs) \<longrightarrow>
              cue_start ((c # d # cs) ! Suc i) = cue_end ((c # d # cs) ! i)"
    have "cue_start d = cue_end c" using a[rule_format, of 0] by simp
    moreover have "contiguous (d # cs)"
      unfolding 3
    proof (intro allI impI)
      fix i assume "Suc i < length (d # cs)"
      then show "cue_start ((d # cs) ! Suc i) = cue_end ((d # cs) ! i)"
        using a[rule_format, of "Suc i"] by simp
    qed
    ultimately show "contiguous (c # d # cs)" by simp
  qed
qed

lemma per_line_ge2: "2 \<le> per_line dur n"
  by (simp add: per_line_def)

lemma per_line_fits:
  assumes "0 < n" and "2 * (int n - 1) < dur"
  shows "(int n - 1) * per_line dur n < dur"
proof (cases "dur div int n \<le> 2")
  case True
  then have "per_line dur n = 2" by (simp add: per_line_def)
  with assms show ?thesis by simp
next
  case False
  then have p: "per_line dur n = dur div int n" by (simp add: per_line_def)
  have "int n * (dur div int n) \<le> dur"
  proof -
    have "dur = int n * (dur div int n) + dur mod int n" by simp
    moreover have "0 \<le> dur mod int n" using assms(1) by simp
    ultimately show ?thesis by linarith
  qed
  moreover have "0 < dur div int n" using False by simp
  ultimately show ?thesis
    unfolding p by (simp add: algebra_simps)
qed

lemma mult_per_mono:
  assumes "i \<le> j" and "0 \<le> (p::int)"
  shows "int i * p \<le> int j * p"
  using assms by (simp add: mult_right_mono)

text \<open>
  Claim C2, as amended. For a script with at least one non-empty trimmed line and a
  whole duration above zero: the builder computes one cue per line; every cue starts
  at or after 0 and ends at or before the duration; and the cues are contiguous with
  start before end exactly when \<open>2 * (lines - 1) < duration\<close>. Both versions write
  these cues, block by block.
\<close>

theorem cues_track_properties:
  assumes "script_lines script \<noteq> []" and "0 < dur"
  shows "length (cues script dur) = length (script_lines script)
       \<and> within dur (cues script dur)
       \<and> (contiguous (cues script dur) \<and> ordered (cues script dur)
            \<longleftrightarrow> 2 * (int (length (script_lines script)) - 1) < dur)
       \<and> generateSRT script dur = concat (map srt_block (cues script dur))
       \<and> buildSRT script dur = concat (map srt_block (cues script dur))"
proof -
  define n where "n = length (script_lines script)"
  define p where "p = per_line dur n"
  have n: "0 < n" using assms(1) by (simp add: n_def)
  have p2: "2 \<le> p" by (simp add: p_def per_line_ge2)
  have len: "length (cues script dur) = n" by (simp add: n_def length_cues)
  have st: "cue_start (cues script dur ! i) = int i * p" if "i < n" for i
    using that by (simp add: nth_cues n_def p_def cue_at_def Let_def)
  have en: "cue_end (cues script dur ! i) = min (int i * p + p) dur" if "i < n" for i
    using that by (simp add: nth_cues n_def p_def cue_at_def Let_def)
  have w: "within dur (cues script dur)"
    unfolding within_def list_all_length
  proof (intro allI impI)
    fix i assume "i < length (cues script dur)"
    then have i: "i < n" by (simp add: len)
    have "0 \<le> int i * p" using p2 by simp
    then show "0 \<le> cue_start (cues script dur ! i) \<and> cue_end (cues script dur ! i) \<le> dur"
      by (simp add: st[OF i] en[OF i])
  qed
  have iff: "contiguous (cues script dur) \<and> ordered (cues script dur)
            \<longleftrightarrow> 2 * (int n - 1) < dur"
  proof
    assume a: "contiguous (cues script dur) \<and> ordered (cues script dur)"
    then have "cue_start (cues script dur ! (n - 1)) < cue_end (cues script dur ! (n - 1))"
      using n by (simp add: ordered_def list_all_length len)
    then have "int (n - 1) * p < dur"
      using n by (simp add: st en)
    moreover have "int (n - 1) * 2 \<le> int (n - 1) * p"
      using p2 by (simp add: mult_left_mono)
    ultimately show "2 * (int n - 1) < dur" using n by (simp add: of_nat_diff)
  next
    assume a: "2 * (int n - 1) < dur"
    have fit: "(int n - 1) * p < dur"
      unfolding p_def using n a by (rule per_line_fits)
    have below: "int i * p < dur" if "i < n" for i
    proof -
      have "int i \<le> int n - 1" using that by simp
      then have "int i * p \<le> (int n - 1) * p" using p2 by (simp add: mult_right_mono)
      with fit show ?thesis by simp
    qed
    have c: "contiguous (cues script dur)"
      unfolding contiguous_iff_nth
    proof (intro allI impI)
      fix i assume "Suc i < length (cues script dur)"
      then have i: "Suc i < n" by (simp add: len)
      then have i': "i < n" by simp
      have "int (Suc i) * p < dur" using below[OF i] .
      then have "int i * p + p \<le> dur" by (simp add: algebra_simps)
      then show "cue_start (cues script dur ! Suc i) = cue_end (cues script dur ! i)"
        by (simp add: st[OF i] en[OF i'] algebra_simps)
    qed
    have o: "ordered (cues script dur)"
      unfolding ordered_def list_all_length
    proof (intro allI impI)
      fix i assume "i < length (cues script dur)"
      then have i: "i < n" by (simp add: len)
      show "cue_start (cues script dur ! i) < cue_end (cues script dur ! i)"
        using below[OF i] p2 by (simp add: st[OF i] en[OF i])
    qed
    from c o show "contiguous (cues script dur) \<and> ordered (cues script dur)" by simp
  qed
  show ?thesis
    using len w iff by (simp add: n_def generateSRT_eq_buildSRT buildSRT_concat)
qed

lemma lines_abc:
  "script_lines (''a'' @ [LF] @ ''b'' @ [LF] @ ''c'') = [''a'', ''b'', ''c'']"
  by (simp add: script_lines_def trim_def is_js_space_def LF_def)

lemma lines_ab: "script_lines (''a'' @ [LF] @ ''b'') = [''a'', ''b'']"
  by (simp add: script_lines_def trim_def is_js_space_def LF_def)

text \<open>The theorem at the script "a" / "b" and the duration 3.\<close>

theorem cues_track_properties_witness:
  "script_lines (''a'' @ [LF] @ ''b'') \<noteq> [] \<and> (0::int) < 3
   \<and> length (cues (''a'' @ [LF] @ ''b'') 3) = 2
   \<and> within 3 (cues (''a'' @ [LF] @ ''b'') 3)
   \<and> contiguous (cues (''a'' @ [LF] @ ''b'') 3)
   \<and> ordered (cues (''a'' @ [LF] @ ''b'') 3)"
  using cues_track_properties [of "''a'' @ [LF] @ ''b''" 3]
  unfolding lines_ab by simp

text \<open>
  Claim C2 as stated fails: three lines in three seconds. The span of a cue is at least
  2, so the third cue starts at 4, after the end of the second cue (3) and after its
  own end, which is clamped to the duration.
\<close>

theorem cues_overrun_counterexample:
  "script_lines (''a'' @ [LF] @ ''b'' @ [LF] @ ''c'') = [''a'', ''b'', ''c'']
   \<and> cues (''a'' @ [LF] @ ''b'' @ [LF] @ ''c'') 3 =
       [\<lparr>cue_index = 1, cue_start = 0, cue_end = 2, cue_text = ''a''\<rparr>,
        \<lparr>cue_index = 2, cue_start = 2, cue_end = 3, cue_text = ''b''\<rparr>,
        \<lparr>cue_index = 3, cue_start = 4, cue_end = 3, cue_text = ''c''\<rparr>]
   \<and> \<not> contiguous (cues (''a'' @ [LF] @ ''b'' @ [LF] @ ''c'') 3)
   \<and> \<not> ordered (cues (''a'' @ [LF] @ ''b'' @ [LF] @ ''c'') 3)"
proof -
  have c: "cues (''a'' @ [LF] @ ''b'' @ [LF] @ ''c'') 3 =
       [\<lparr>cue_index = 1, cue_start = 0, cue_end = 2, cue_text = ''a''\<rparr>,
        \<lparr>cue_index = 2, cue_start = 2, cue_end = 3, cue_text = ''b''\<rparr>,
        \<lparr>cue_index = 3, cue_start = 4, cue_end = 3, cue_text = ''c''\<rparr>]"
    unfolding cues_def lines_abc
    by (simp add: Let_def per_line_def cue_at_def enumerate_eq_zip upt_rec)
  show ?thesis
    unfolding c lines_abc by (simp add: ordered_def)
qed

section \<open>A script without lines\<close>

text \<open>
  Claim C5, as amended. For a script whose split and trim leave no non-empty line, and
  for every duration, the builder returns the empty text, a track of no cue, in both
  versions; it has no failing branch.
\<close>

theorem empty_script_returns_empty:
  assumes "script_lines script = []"
  shows "cues script dur = [] \<and> buildSRT script dur = [] \<and> generateSRT script dur = []"
  using assms by (simp add: generateSRT_eq_buildSRT buildSRT_concat cues_def enumerate_eq_zip)

text \<open>The theorem at a script of two blank lines and the duration 10.\<close>

theorem empty_script_returns_empty_witness:
  "script_lines ('' '' @ [LF] @ ''  '') = []
   \<and> cues ('' '' @ [LF] @ ''  '') 10 = []
   \<and> buildSRT ('' '' @ [LF] @ ''  '') 10 = []
   \<and> generateSRT ('' '' @ [LF] @ ''  '') 10 = []"
proof -
  have l: "script_lines ('' '' @ [LF] @ ''  '') = []"
    by (simp add: script_lines_def trim_def is_js_space_def LF_def)
  show ?thesis
    using empty_script_returns_empty [OF l, of 10] l by simp
qed

text \<open>
  Claim C5 as stated fails: for the empty script and the duration 10 both builders
  return the empty text, and the script route, whose language model answers with a
  blank text here, responds with status 200 and an empty \<^verbatim>\<open>srt\<close> field, not with an
  error.
\<close>

theorem empty_script_counterexample:
  "buildSRT [] 10 = [] \<and> generateSRT [] 10 = []
   \<and> statusCode (res (generate_script sample_env sample_script_request empty_world)) = 200
   \<and> body (res (generate_script sample_env sample_script_request empty_world)) =
       JsonPayload (JObj [(''script'', JStr []), (''srt'', JStr [])])"
proof -
  have l: "script_lines [] = []"
    by (simp add: script_lines_def trim_def)
  have b: "buildSRT [] 10 = []"
    by (simp add: buildSRT_concat cues_def l enumerate_eq_zip)
  have t: "trim '' '' = []"
    by (simp add: trim_def is_js_space_def)
  show ?thesis
    by (simp add: b generateSRT_eq_buildSRT generate_script_def sample_env_def
        sample_script_request_def empty_world_def fresh_response_def and_then_def t Let_def)
qed

section \<open>The engine runs\<close>

lemma replace_all_concat:
  "replace_all c rep xs = concat (map (\<lambda>x. if x = c then rep else [x]) xs)"
  by (induction xs) simp_all

lemma count_backslash_escaped:
  "count_list (replace_all CHR '':'' [BACKSLASH, CHR '':''] xs) BACKSLASH =
     count_list xs BACKSLASH + count_list xs CHR '':''"
  by (induction xs) (simp_all add: BACKSLASH_def)

lemma count_colon_escaped:
  "count_list (replace_all CHR '':'' [BACKSLASH, CHR '':''] xs) CHR '':'' = count_list xs CHR '':''"
  by (induction xs) (simp_all add: BACKSLASH_def)

text \<open>
  Claim C7. In the filter argument of the burn-subtitles run every character of the
  subtitle path stands unchanged but the colon, which stands as backslash and colon:
  the argument has as many colons from the path as the path has, and one backslash
  more per colon. Both versions, which differ in the style that follows.
\<close>

theorem subtitles_filter_escapes_each_colon_once:
  "subtitles_filter path =
     ''subtitles='' @
     concat (map (\<lambda>c. if c = CHR '':'' then [BACKSLASH, CHR '':''] else [c]) path) @
     '':force_style='' @ [SQUOTE] @ ''Fontsize=28,PrimaryColour=&Hffffff&,Bold=1'' @ [SQUOTE]
   \<and> subtitles_filter_prev path =
     ''subtitles='' @
     concat (map (\<lambda>c. if c = CHR '':'' then [BACKSLASH, CHR '':''] else [c]) path) @
     '':force_style='' @ [SQUOTE] @
     ''Fontsize=24,PrimaryColour=&Hffffff&,OutlineColour=&H0&,BackColour=&H80000000&,Bold=1'' @
     [SQUOTE]
   \<and> count_list (concat (map (\<lambda>c. if c = CHR '':'' then [BACKSLASH, CHR '':''] else [c]) path))
         BACKSLASH = count_list path BACKSLASH + count_list path CHR '':''
   \<and> count_list (concat (map (\<lambda>c. if c = CHR '':'' then [BACKSLASH, CHR '':''] else [c]) path))
         CHR '':'' = count_list path CHR '':''
   \<and> cmd_filters (burn_cmd p) = [subtitles_filter (p_srt p)]
   \<and> cmd_filters (burn_cmd_prev f) = [subtitles_filter_prev (f_srt f)]"
proof -
  have e: "concat (map (\<lambda>c. if c = CHR '':'' then [BACKSLASH, CHR '':''] else [c]) path) =
           replace_all CHR '':'' [BACKSLASH, CHR '':''] path"
    by (simp add: replace_all_concat)
  show ?thesis
    unfolding e
    by (simp add: subtitles_filter_def subtitles_filter_prev_def count_backslash_escaped
        count_colon_escaped burn_cmd_def burn_cmd_prev_def)
qed

text \<open>
  Claim C10. In every job the audio-mux run writes to the path it reads its video
  from: the intermediate video that the trim run wrote. Both versions.
\<close>

theorem overlay_overwrites_its_input:
  "cmd_inputs (overlay_cmd (asset_paths_of dir)) =
     [path_join dir ''video.mp4'', path_join dir ''tts.wav'']
   \<and> cmd_output (overlay_cmd (asset_paths_of dir)) = path_join dir ''video.mp4''
   \<and> cmd_output (trim_cmd (asset_paths_of dir) duration) = path_join dir ''video.mp4''
   \<and> cmd_inputs (overlay_cmd_prev (job_files_of dir)) =
     [path_join dir ''temp.mp4'', path_join dir ''voice.aiff'']
   \<and> cmd_output (overlay_cmd_prev (job_files_of dir)) = path_join dir ''temp.mp4''
   \<and> cmd_output (trim_cmd_prev (job_files_of dir) duration) = path_join dir ''temp.mp4''"
  by (simp add: overlay_cmd_def trim_cmd_def asset_paths_of_def overlay_cmd_prev_def
      trim_cmd_prev_def job_files_of_def)

section \<open>The background resolver\<close>

lemma truthy_fallback: "truthy (JStr FALLBACK_URL)"
  by (simp add: FALLBACK_URL_def)

lemma fallback_not_empty: "FALLBACK_URL \<noteq> []"
  by (simp add: FALLBACK_URL_def)

lemma getBg_returns_truthy: "\<exists>url. getBg service style = Inr url \<and> truthy url"
  by (auto simp: getBg_def and_then_def fallback_not_empty Let_def split: sum.splits)


lemma fetchPexelsVideo_never_raises: "\<exists>url. fetchPexelsVideo service query = Inr url"
  by (auto simp: fetchPexelsVideo_def and_then_def split: sum.splits)

lemma fetchPexelsVideo_no_response:
  "service query = NoResponse err \<Longrightarrow> fetchPexelsVideo service query = Inr (JStr FALLBACK_URL)"
  by (simp add: fetchPexelsVideo_def and_then_def)

text \<open>
  Claim C4 at a search that succeeds and finds nothing. \<^verbatim>\<open>getBg\<close> of
  \<^verbatim>\<open>server.js\<close> returns the fallback URL; \<^verbatim>\<open>fetchPexelsVideo\<close> of the earlier file
  returns \<^verbatim>\<open>null\<close>, which the handler would pass on as the URL to download.
\<close>

theorem fetchPexelsVideo_empty_result_is_null:
  "fetchPexelsVideo (\<lambda>q. Response 200 (JObj [(''videos'', JArr [])])) (JStr ''nature'') = Inr JNull
   \<and> getBg (\<lambda>q. Response 200 (JObj [(''videos'', JArr [])])) (JStr ''nature'') =
       Inr (JStr FALLBACK_URL)"
  by (simp add: fetchPexelsVideo_def getBg_def and_then_def first_link_def)

section \<open>The video route\<close>

lemma style_unbound:
  "resolve_identifier (video_scope req job dir) ''style'' =
     Inl (ReferenceError ''style is not defined'')"
  by (simp add: resolve_identifier_def video_scope_def module_scope_def node_scope_def)

lemma style_unbound_prev:
  "resolve_identifier (video_scope_prev req job dir) ''style'' =
     Inl (ReferenceError ''style is not defined'')"
  by (simp add: resolve_identifier_def video_scope_prev_def module_scope_prev_def node_scope_def)

lemma try_block_throws:
  "try_block e (video_scope req job dir) p srt d dir w =
     (case srt of
        None \<Rightarrow> (Inl invalid_data, w)
      | Some s \<Rightarrow> (Inl (ReferenceError ''style is not defined''),
                  w\<lparr>files := (files w)(p_srt p \<mapsto> s)\<rparr>))"
  by (simp add: try_block_def next_step_def writeFile_def pure_step_def style_unbound
      split: option.splits)

lemma try_block_prev_throws:
  "try_block_prev e (video_scope_prev req job dir) f req d dir job w =
     (case vr_srt req of
        None \<Rightarrow> (Inl invalid_data, log (''Starting video job '' @ job) w)
      | Some s \<Rightarrow> (Inl (ReferenceError ''style is not defined''),
                  (log (''Starting video job '' @ job) w)
                    \<lparr>files := (files (log (''Starting video job '' @ job) w))(f_srt f \<mapsto> s)\<rparr>))"
  by (simp add: try_block_prev_def next_step_def writeFile_def pure_step_def style_unbound_prev
      split: option.splits)

lemma under_self: "under d d"
  by (simp add: under_def)

lemma dirs_remove: "d \<notin> dirs (remove d w)"
  by (simp add: remove_def under_self)

lemma dirs_remove_subset: "dirs (remove d w) \<subseteq> dirs w"
  by (auto simp: remove_def)

lemma dirs_catch_block: "d \<notin> dirs (catch_block label d err w)"
  by (simp add: catch_block_def Let_def dirs_remove)

lemma catch_block_fresh:
  "\<not> headersSent (res w) \<Longrightarrow>
   res (catch_block label d err w) =
     (res w)\<lparr>headersSent := True, statusCode := 500, contentType := Some ''application/json'',
              body := JsonPayload (JObj [(''error'', JStr (message err))])\<rparr>
   \<and> calls (catch_block label d err w) = calls w
   \<and> timers (catch_block label d err w) = timers w
   \<and> on_stream_end (res (catch_block label d err w)) = on_stream_end (res w)
   \<and> console (catch_block label d err w) = console w @ [label @ message err]"
  by (simp add: catch_block_def Let_def remove_def log_def)

text \<open>
  Claim C1, as amended. In both versions the video handler names \<^verbatim>\<open>style\<close>, which
  nothing in scope binds, after it has written the subtitle file. For every request
  body, environment and state of the server the \<^verbatim>\<open>try\<close> block throws before the
  background download: the ReferenceError of \<^verbatim>\<open>style\<close> when the body has an
  \<^verbatim>\<open>srt\<close>, and the TypeError of \<^verbatim>\<open>fs.writeFile\<close>, one statement earlier, when it has
  none. Either way the handler ends in its \<^verbatim>\<open>catch\<close> block: the response is status
  500 with a JSON body of one field \<^verbatim>\<open>error\<close> that holds the message of the error
  thrown, the job's directory is removed, no download, engine run or shell command was
  made, and no stream was set up.
\<close>

theorem video_route_always_fails:
  "resolve_identifier (video_scope req (uuidv4 e) (job_dir e)) ''style'' =
     Inl (ReferenceError ''style is not defined'')
   \<and> res (generate_video e req w) =
       \<lparr>headersSent = True, statusCode = 500, contentType = Some ''application/json'',
        body = JsonPayload (JObj [(''error'', JStr (case vr_srt req of
                 None \<Rightarrow> message invalid_data | Some s \<Rightarrow> ''style is not defined''))]),
        on_stream_end = None\<rparr>
   \<and> job_dir e \<notin> dirs (generate_video e req w)
   \<and> calls (generate_video e req w) = calls w
   \<and> on_stream_end (res (generate_video e req w)) = None
   \<and> resolve_identifier (video_scope_prev req (uuidv4 e) (job_dir e)) ''style'' =
       Inl (ReferenceError ''style is not defined'')
   \<and> res (generate_video_prev e req w) =
       \<lparr>headersSent = True, statusCode = 500, contentType = Some ''application/json'',
        body = JsonPayload (JObj [(''error'', JStr (case vr_srt req of
                 None \<Rightarrow> message invalid_data | Some s \<Rightarrow> ''style is not defined''))]),
        on_stream_end = None\<rparr>
   \<and> job_dir e \<notin> dirs (generate_video_prev e req w)
   \<and> calls (generate_video_prev e req w) = calls w
   \<and> on_stream_end (res (generate_video_prev e req w)) = None
   \<and> fst (try_block e (video_scope req job dir) p (vr_srt req) d dir w) =
       (case vr_srt req of
          None \<Rightarrow> Inl invalid_data
        | Some s \<Rightarrow> Inl (ReferenceError ''style is not defined''))
   \<and> fst (try_block_prev e (video_scope_prev req job dir) f req d dir job w) =
       (case vr_srt req of
          None \<Rightarrow> Inl invalid_data
        | Some s \<Rightarrow> Inl (ReferenceError ''style is not defined''))"
proof -
  have t: "fst (try_block e (video_scope req job dir) p (vr_srt req) d dir w) =
       (case vr_srt req of
          None \<Rightarrow> Inl invalid_data
        | Some s \<Rightarrow> Inl (ReferenceError ''style is not defined''))"
    by (simp add: try_block_throws split: option.splits)
  have t': "fst (try_block_prev e (video_scope_prev req job dir) f req d dir job w) =
       (case vr_srt req of
          None \<Rightarrow> Inl invalid_data
        | Some s \<Rightarrow> Inl (ReferenceError ''style is not defined''))"
    by (simp add: try_block_prev_throws split: option.splits)
  have a: "res (generate_video e req w) =
       \<lparr>headersSent = True, statusCode = 500, contentType = Some ''application/json'',
        body = JsonPayload (JObj [(''error'', JStr (case vr_srt req of
                 None \<Rightarrow> message invalid_data | Some s \<Rightarrow> ''style is not defined''))]),
        on_stream_end = None\<rparr>
     \<and> calls (generate_video e req w) = calls w
     \<and> on_stream_end (res (generate_video e req w)) = None"
    by (simp add: generate_video_def Let_def try_block_throws catch_block_fresh ensureDir_def
        fresh_response_def split: option.splits)
  have b: "res (generate_video_prev e req w) =
       \<lparr>headersSent = True, statusCode = 500, contentType = Some ''application/json'',
        body = JsonPayload (JObj [(''error'', JStr (case vr_srt req of
                 None \<Rightarrow> message invalid_data | Some s \<Rightarrow> ''style is not defined''))]),
        on_stream_end = None\<rparr>
     \<and> calls (generate_video_prev e req w) = calls w
     \<and> on_stream_end (res (generate_video_prev e req w)) = None"
    by (simp add: generate_video_prev_def Let_def try_block_prev_throws catch_block_fresh
        ensureDir_def log_def fresh_response_def split: option.splits)
  have c: "job_dir e \<notin> dirs (generate_video e req w)"
    by (simp add: generate_video_def Let_def try_block_throws job_dir_def dirs_catch_block
        split: option.splits)
  have d: "job_dir e \<notin> dirs (generate_video_prev e req w)"
    by (simp add: generate_video_prev_def Let_def try_block_prev_throws job_dir_def
        dirs_catch_block split: option.splits)
  show ?thesis
    using a b c d t t' by (simp add: style_unbound style_unbound_prev)
qed

text \<open>
  The theorem on the empty world, at the sample request, which has an \<^verbatim>\<open>srt\<close>, and
  at the request with the body \<^verbatim>\<open>{}\<close>, which has none.
\<close>

theorem video_route_always_fails_witness:
  "statusCode (res (generate_video sample_env sample_request empty_world)) = 500
   \<and> body (res (generate_video sample_env sample_request empty_world)) =
       JsonPayload (JObj [(''error'', JStr ''style is not defined'')])
   \<and> ''/app/temp/job-1'' \<notin> dirs (generate_video sample_env sample_request empty_world)
   \<and> calls (generate_video sample_env sample_request empty_world) = []
   \<and> statusCode (res (generate_video_prev sample_env sample_request empty_world)) = 500
   \<and> calls (generate_video_prev sample_env sample_request empty_world) = []
   \<and> statusCode (res (generate_video sample_env bare_request empty_world)) = 500
   \<and> body (res (generate_video sample_env bare_request empty_world)) =
       JsonPayload (JObj [(''error'', JStr (message invalid_data))])
   \<and> ''/app/temp/job-1'' \<notin> dirs (generate_video sample_env bare_request empty_world)
   \<and> calls (generate_video sample_env bare_request empty_world) = []
   \<and> statusCode (res (generate_video_prev sample_env bare_request empty_world)) = 500
   \<and> calls (generate_video_prev sample_env bare_request empty_world) = []"
  using video_route_always_fails [of sample_request sample_env empty_world
      "''job-1''" "''/app/temp/job-1''" "asset_paths_of ''/app/temp/job-1''" 10
      "job_files_of ''/app/temp/job-1''"]
    video_route_always_fails [of bare_request sample_env empty_world
      "''job-1''" "''/app/temp/job-1''" "asset_paths_of ''/app/temp/job-1''" 60
      "job_files_of ''/app/temp/job-1''"]
  by (simp add: job_dir_def path_join_def sample_env_def sample_request_def bare_request_def
      empty_world_def)

text \<open>
  Claim C1 as stated fails: it says that every request raises the ReferenceError. For
  the body \<^verbatim>\<open>{}\<close> the \<^verbatim>\<open>try\<close> block of both versions throws the TypeError of
  \<^verbatim>\<open>fs.writeFile\<close>, which is no ReferenceError; \<^verbatim>\<open>style\<close> is never evaluated, and the
  response carries the message of the TypeError.
\<close>

theorem video_route_without_srt_counterexample:
  "vr_srt bare_request = None
   \<and> fst (try_block sample_env (video_scope bare_request ''job-1'' ''/app/temp/job-1'')
            (asset_paths_of ''/app/temp/job-1'') (vr_srt bare_request) 60 ''/app/temp/job-1''
            (ensureDir ''/app/temp/job-1'' empty_world)) = Inl invalid_data
   \<and> fst (try_block_prev sample_env (video_scope_prev bare_request ''job-1'' ''/app/temp/job-1'')
            (job_files_of ''/app/temp/job-1'') bare_request 60 ''/app/temp/job-1'' ''job-1''
            (ensureDir ''/app/temp/job-1'' empty_world)) = Inl invalid_data
   \<and> (\<forall>m. invalid_data \<noteq> ReferenceError m)
   \<and> body (res (generate_video sample_env bare_request empty_world)) =
       JsonPayload (JObj [(''error'', JStr (message invalid_data))])
   \<and> body (res (generate_video_prev sample_env bare_request empty_world)) =
       JsonPayload (JObj [(''error'', JStr (message invalid_data))])
   \<and> message invalid_data \<noteq> ''style is not defined''"
proof -
  have s: "vr_srt bare_request = None"
    by (simp add: bare_request_def)
  have a: "fst (try_block sample_env (video_scope bare_request ''job-1'' ''/app/temp/job-1'')
            (asset_paths_of ''/app/temp/job-1'') (vr_srt bare_request) 60 ''/app/temp/job-1''
            (ensureDir ''/app/temp/job-1'' empty_world)) = Inl invalid_data"
    by (simp add: try_block_throws s)
  have b: "fst (try_block_prev sample_env (video_scope_prev bare_request ''job-1'' ''/app/temp/job-1'')
            (job_files_of ''/app/temp/job-1'') bare_request 60 ''/app/temp/job-1'' ''job-1''
            (ensureDir ''/app/temp/job-1'' empty_world)) = Inl invalid_data"
    by (simp add: try_block_prev_throws s)
  have c: "body (res (generate_video sample_env bare_request empty_world)) =
       JsonPayload (JObj [(''error'', JStr (message invalid_data))])"
    by (simp add: generate_video_def Let_def try_block_throws catch_block_fresh ensureDir_def
        fresh_response_def s)
  have d: "body (res (generate_video_prev sample_env bare_request empty_world)) =
       JsonPayload (JObj [(''error'', JStr (message invalid_data))])"
    by (simp add: generate_video_prev_def Let_def try_block_prev_throws catch_block_fresh
        ensureDir_def log_def fresh_response_def s)
  have e: "\<forall>m. invalid_data \<noteq> ReferenceError m"
    by (simp add: invalid_data_def)
  have f: "message invalid_data \<noteq> ''style is not defined''"
    by (simp add: invalid_data_def)
  show ?thesis
    using s a b c d e f by (simp only: simp_thms)
qed

section \<open>The workspace of a job\<close>

lemma foldl_remove_keeps_absent:
  "d \<notin> dirs w \<Longrightarrow> d \<notin> dirs (foldl (\<lambda>w' (delay, x). remove x w') w ts)"
proof (induction ts arbitrary: w)
  case Nil
  then show ?case by simp
next
  case (Cons t ts)
  obtain delay x where t: "t = (delay, x)" by (cases t)
  have "d \<notin> dirs (remove x w)"
    using Cons.prems dirs_remove_subset by blast
  then show ?case
    using Cons.IH by (simp add: t)
qed

lemma foldl_remove_removes:
  "(delay, d) \<in> set ts \<Longrightarrow> d \<notin> dirs (foldl (\<lambda>w' (delay, x). remove x w') w ts)"
proof (induction ts arbitrary: w)
  case Nil
  then show ?case by simp
next
  case (Cons t ts)
  obtain delay' x where t: "t = (delay', x)" by (cases t)
  show ?case
  proof (cases "t = (delay, d)")
    case True
    then show ?thesis
      by (simp add: foldl_remove_keeps_absent dirs_remove)
  next
    case False
    then have "(delay, d) \<in> set ts" using Cons.prems by simp
    then show ?thesis using Cons.IH by (simp add: t)
  qed
qed

lemma stream_ended_schedules:
  "on_stream_end (res w) = Some h \<Longrightarrow>
   timers (stream_ended w) = timers w @ [(hook_delay h, hook_dir h)]
   \<and> dirs (stream_ended w) = dirs w"
  by (simp add: stream_ended_def)

lemma removed_after_stream:
  assumes "on_stream_end (res w) = Some h"
  shows "hook_dir h \<notin> dirs (timers_elapsed (stream_ended w))"
proof -
  have "(hook_delay h, hook_dir h) \<in> set (timers (stream_ended w))"
    using assms by (simp add: stream_ended_schedules)
  then show ?thesis
    unfolding timers_elapsed_def by (rule foldl_remove_removes)
qed

lemma after_bgUrl_success:
  assumes "after_bgUrl e p d dir bgUrl w = (Inr u, w')"
  shows "on_stream_end (res w') = Some \<lparr>hook_delay = 5000, hook_dir = dir, hook_log = []\<rparr>
       \<and> timers w' = timers w \<and> dirs w' = dirs w
       \<and> body (res w') = PipedFile (p_final p)"
  using assms
  by (auto simp: after_bgUrl_def next_step_def download_to_def run_engine_def silence_step_def
      pure_step_def writeFile_def start_stream_def Let_def
      split: sum.splits prod.splits if_splits)

lemma after_bgUrl_prev_success:
  assumes "after_bgUrl_prev e f script voice d dir job bgUrl w = (Inr u, w')"
  shows "on_stream_end (res w') =
           Some \<lparr>hook_delay = 5000, hook_dir = dir, hook_log = [''Video sent: '' @ job]\<rparr>
       \<and> timers w' = timers w \<and> dirs w' = dirs w
       \<and> body (res w') = PipedFile (f_final f)"
  using assms
  by (auto simp: after_bgUrl_prev_def next_step_def download_to_def run_engine_def
      generateTTS_def start_stream_def Let_def
      split: sum.splits prod.splits if_splits)

lemma after_bgUrl_leaves_no_workspace:
  "leaves_no_workspace ''Video error: '' dir (after_bgUrl e p d dir bgUrl w)"
proof (cases "after_bgUrl e p d dir bgUrl w")
  case (Pair r w')
  show ?thesis
  proof (cases r)
    case (Inl err)
    then show ?thesis by (simp add: Pair leaves_no_workspace_def dirs_catch_block)
  next
    case (Inr u)
    with Pair have h: "on_stream_end (res w') = Some \<lparr>hook_delay = 5000, hook_dir = dir, hook_log = []\<rparr>"
      using after_bgUrl_success by blast
    show ?thesis
      using removed_after_stream[OF h] stream_ended_schedules[OF h]
      by (simp add: Pair Inr leaves_no_workspace_def h)
  qed
qed

lemma after_bgUrl_prev_leaves_no_workspace:
  "leaves_no_workspace ''Video failed: '' dir
     (after_bgUrl_prev e f script voice d dir job bgUrl w)"
proof (cases "after_bgUrl_prev e f script voice d dir job bgUrl w")
  case (Pair r w')
  show ?thesis
  proof (cases r)
    case (Inl err)
    then show ?thesis by (simp add: Pair leaves_no_workspace_def dirs_catch_block)
  next
    case (Inr u)
    with Pair have h: "on_stream_end (res w') =
        Some \<lparr>hook_delay = 5000, hook_dir = dir, hook_log = [''Video sent: '' @ job]\<rparr>"
      using after_bgUrl_prev_success by blast
    show ?thesis
      using removed_after_stream[OF h] stream_ended_schedules[OF h]
      by (simp add: Pair Inr leaves_no_workspace_def h)
  qed
qed

lemma handler_dir_stays_absent:
  assumes "d \<notin> dirs w" and "on_stream_end (res w) = None"
  shows "d \<notin> dirs (timers_elapsed (stream_ended w))"
  using assms by (simp add: stream_ended_def timers_elapsed_def foldl_remove_keeps_absent)

text \<open>
  Claim C3. For every request, environment and state of the server the job's directory
  is absent when the video handler has returned, and stays absent through the later
  events, in both versions. Exit by exit, for the code from the download on: a failure
  of any stage (download, trim, narration, mux, burn) removes the directory at once in
  the \<^verbatim>\<open>catch\<close> block; after a run without failure the end of the stream sets a
  timer of 5000 ms that removes it.
\<close>

theorem workspace_removed_on_every_exit:
  "job_dir e \<notin> dirs (generate_video e req w)
   \<and> job_dir e \<notin> dirs (timers_elapsed (stream_ended (generate_video e req w)))
   \<and> job_dir e \<notin> dirs (generate_video_prev e req w)
   \<and> job_dir e \<notin> dirs (timers_elapsed (stream_ended (generate_video_prev e req w)))
   \<and> leaves_no_workspace ''Video error: '' dir (after_bgUrl e p d dir bgUrl w)
   \<and> leaves_no_workspace ''Video failed: '' dir
         (after_bgUrl_prev e f script voice d dir job bgUrl w)"
proof -
  have a: "job_dir e \<notin> dirs (generate_video e req w)"
    by (simp add: generate_video_def Let_def try_block_throws job_dir_def dirs_catch_block
        split: option.splits)
  have a': "on_stream_end (res (generate_video e req w)) = None"
    by (simp add: generate_video_def Let_def try_block_throws catch_block_fresh ensureDir_def
        fresh_response_def split: option.splits)
  have b: "job_dir e \<notin> dirs (generate_video_prev e req w)"
    by (simp add: generate_video_prev_def Let_def try_block_prev_throws job_dir_def
        dirs_catch_block split: option.splits)
  have b': "on_stream_end (res (generate_video_prev e req w)) = None"
    by (simp add: generate_video_prev_def Let_def try_block_prev_throws catch_block_fresh
        ensureDir_def log_def fresh_response_def split: option.splits)
  show ?thesis
    using a b handler_dir_stays_absent[OF a a'] handler_dir_stays_absent[OF b b']
      after_bgUrl_leaves_no_workspace after_bgUrl_prev_leaves_no_workspace
    by simp
qed

text \<open>
  The theorem at the sample request; from the download on every stage succeeds in the
  sample environment, so the second part is the exit through the stream.
\<close>

theorem workspace_removed_on_every_exit_witness:
  "''/app/temp/job-1'' \<notin>
     dirs (generate_video sample_env sample_request (ensureDir ''/app/temp/job-1'' empty_world))
   \<and> ''/app/temp/job-1'' \<notin>
     dirs (generate_video_prev sample_env sample_request (ensureDir ''/app/temp/job-1'' empty_world))
   \<and> leaves_no_workspace ''Video error: '' ''/app/temp/job-1''
        (after_bgUrl sample_env (asset_paths_of ''/app/temp/job-1'') 10 ''/app/temp/job-1''
           (JStr ''https://videos.example/clip.mp4'') (ensureDir ''/app/temp/job-1'' empty_world))
   \<and> fst (after_bgUrl sample_env (asset_paths_of ''/app/temp/job-1'') 10 ''/app/temp/job-1''
           (JStr ''https://videos.example/clip.mp4'') (ensureDir ''/app/temp/job-1'' empty_world))
       = Inr ()"
proof -
  have s: "fst (after_bgUrl sample_env (asset_paths_of ''/app/temp/job-1'') 10 ''/app/temp/job-1''
           (JStr ''https://videos.example/clip.mp4'') (ensureDir ''/app/temp/job-1'' empty_world))
       = Inr ()"
    by (simp add: after_bgUrl_def next_step_def download_to_def run_engine_def silence_step_def
        pure_step_def writeFile_def start_stream_def Let_def sample_env_def Buffer_alloc_def)
  show ?thesis
    using workspace_removed_on_every_exit [of sample_env sample_request
        "ensureDir ''/app/temp/job-1'' empty_world"
        "''/app/temp/job-1''" "asset_paths_of ''/app/temp/job-1''" 10
        "JStr ''https://videos.example/clip.mp4''"]
      s
    by (simp add: job_dir_def path_join_def sample_env_def)
qed

section \<open>The narration step\<close>

lemma silence_step_eq:
  "silence_step e p d w =
     (if d * 16000 * 2 < 0 \<or> kMaxLength e < d * 16000 * 2
      then (Inl (RangeError ''The value of size is out of range.''), w)
      else (Inr (), w\<lparr>files := (files w)(p_tts p \<mapsto> replicate (nat (d * 16000 * 2)) (CHR 0x00))\<rparr>))"
  by (simp add: silence_step_def next_step_def pure_step_def Buffer_alloc_def writeFile_def)

lemma generateTTS_outcome:
  "fst (generateTTS e text voice out w) =
     (case tts_command (platform e) text voice out of
        Inl err \<Rightarrow> Inl err
      | Inr cmd \<Rightarrow> (case shell e cmd of Inl err \<Rightarrow> Inl err | Inr written \<Rightarrow> Inr ()))"
  by (simp add: generateTTS_def Let_def split: sum.splits)

text \<open>
  Claim C6, as amended. In \<^verbatim>\<open>server.js\<close> the narration step, for a whole duration
  \<open>d\<close> with \<open>0 \<le> d\<close> and \<open>32000 * d\<close> within the maximum buffer length, does not fail and
  writes \<open>32000 * d\<close> zero bytes (16000 samples a second, two bytes a sample) to
  \<^verbatim>\<open>tts.wav\<close>; for a duration below zero or a size above the maximum it throws a
  RangeError. In the earlier file the step fails exactly when building the command
  throws or the shell command fails; on a platform other than macOS the one command it
  runs is an \<^verbatim>\<open>echo\<close> of a fixed line of text into the audio path.
\<close>

theorem narration_step_behaviour:
  "(0 \<le> d \<and> 32000 * d \<le> kMaxLength e \<longrightarrow>
      silence_step e p d w =
        (Inr (), w\<lparr>files := (files w)(p_tts p \<mapsto> replicate (32000 * nat d) (CHR 0x00))\<rparr>))
   \<and> (d < 0 \<or> kMaxLength e < 32000 * d \<longrightarrow>
      silence_step e p d w = (Inl (RangeError ''The value of size is out of range.''), w))
   \<and> fst (generateTTS e text voice out w) =
       (case tts_command (platform e) text voice out of
          Inl err \<Rightarrow> Inl err
        | Inr cmd \<Rightarrow> (case shell e cmd of Inl err \<Rightarrow> Inl err | Inr written \<Rightarrow> Inr ()))
   \<and> (platform e \<noteq> ''darwin'' \<longrightarrow>
      calls (snd (generateTTS e text voice out w)) =
        calls w @ [Shell (''echo '' @ [DQUOTE] @ ''TTS not supported on this OS'' @ [DQUOTE] @
                          '' > '' @ [DQUOTE] @ out @ [DQUOTE])])"
proof -
  have a: "0 \<le> d \<and> 32000 * d \<le> kMaxLength e \<longrightarrow>
      silence_step e p d w =
        (Inr (), w\<lparr>files := (files w)(p_tts p \<mapsto> replicate (32000 * nat d) (CHR 0x00))\<rparr>)"
  proof
    assume h: "0 \<le> d \<and> 32000 * d \<le> kMaxLength e"
    then have "nat (d * 16000 * 2) = 32000 * nat d"
      by (simp add: nat_mult_distrib)
    with h show "silence_step e p d w =
        (Inr (), w\<lparr>files := (files w)(p_tts p \<mapsto> replicate (32000 * nat d) (CHR 0x00))\<rparr>)"
      by (simp add: silence_step_eq)
  qed
  have b: "d < 0 \<or> kMaxLength e < 32000 * d \<longrightarrow>
      silence_step e p d w = (Inl (RangeError ''The value of size is out of range.''), w)"
    by (auto simp: silence_step_eq)
  have c: "platform e \<noteq> ''darwin'' \<longrightarrow>
      calls (snd (generateTTS e text voice out w)) =
        calls w @ [Shell (''echo '' @ [DQUOTE] @ ''TTS not supported on this OS'' @ [DQUOTE] @
                          '' > '' @ [DQUOTE] @ out @ [DQUOTE])]"
    by (simp add: generateTTS_def tts_command_def Let_def split: sum.splits)
  show ?thesis
    using a b c generateTTS_outcome by blast
qed

text \<open>
  The theorem in the sample environment (not macOS): at the duration 10, where the
  step writes 320000 zero bytes, and at the duration -1, where it throws.
\<close>

theorem narration_step_behaviour_witness:
  "(0::int) \<le> 10 \<and> 32000 * 10 \<le> kMaxLength sample_env
   \<and> silence_step sample_env (asset_paths_of ''/app/temp/job-1'') 10 empty_world =
       (Inr (), empty_world\<lparr>files := (files empty_world)
          (''/app/temp/job-1/tts.wav'' \<mapsto> replicate 320000 (CHR 0x00))\<rparr>)
   \<and> platform sample_env \<noteq> ''darwin''
   \<and> fst (generateTTS sample_env (Some ''Hello world.'') (Some ''Female'')
            ''/app/temp/job-1/voice.aiff'' empty_world) = Inr ()
   \<and> (-1::int) < 0
   \<and> silence_step sample_env (asset_paths_of ''/app/temp/job-1'') (-1) empty_world =
       (Inl (RangeError ''The value of size is out of range.''), empty_world)"
proof -
  have k: "kMaxLength sample_env = 4294967296" "platform sample_env = ''linux''"
    "shell sample_env = (\<lambda>cmd. Inr [])"
    by (simp_all add: sample_env_def)
  have p: "p_tts (asset_paths_of ''/app/temp/job-1'') = ''/app/temp/job-1/tts.wav''"
    by (simp add: asset_paths_of_def path_join_def)
  have t: "\<exists>cmd. tts_command ''linux'' (Some ''Hello world.'') (Some ''Female'')
             ''/app/temp/job-1/voice.aiff'' = Inr cmd"
    by (simp add: tts_command_def)
  show ?thesis
    using narration_step_behaviour [of 10 sample_env "asset_paths_of ''/app/temp/job-1''"
        empty_world "Some ''Hello world.''" "Some ''Female''" "''/app/temp/job-1/voice.aiff''"]
      narration_step_behaviour [of "-1" sample_env "asset_paths_of ''/app/temp/job-1''"
        empty_world "Some ''Hello world.''" "Some ''Female''" "''/app/temp/job-1/voice.aiff''"]
      t
    by (auto simp: k p)
qed

text \<open>
  Claim C6 as stated fails. In \<^verbatim>\<open>server.js\<close> the duration -1 makes the narration
  step throw, which ends the job in the \<^verbatim>\<open>catch\<close> block. In the earlier file, on
  macOS, a failing \<^verbatim>\<open>say\<close> command rejects and ends the job; elsewhere the step runs
  an \<^verbatim>\<open>echo\<close> of text into the audio path and produces no silent audio.
\<close>

theorem narration_counterexample:
  "fst (silence_step sample_env (asset_paths_of ''/app/temp/job-1'') (-1) empty_world) =
     Inl (RangeError ''The value of size is out of range.'')
   \<and> fst (generateTTS
            (sample_env\<lparr>platform := ''darwin'', shell := (\<lambda>cmd. Inl (PlainError ''Command failed''))\<rparr>)
            (Some ''Hello world.'') (Some ''Female'') ''/app/temp/job-1/voice.aiff'' empty_world) =
       Inl (PlainError ''Command failed'')
   \<and> calls (snd (generateTTS sample_env (Some ''Hello world.'') (Some ''Female'')
                   ''/app/temp/job-1/voice.aiff'' empty_world)) =
       [Shell (''echo '' @ [DQUOTE] @ ''TTS not supported on this OS'' @ [DQUOTE] @
               '' > '' @ [DQUOTE] @ ''/app/temp/job-1/voice.aiff'' @ [DQUOTE])]"
  by (simp add: silence_step_eq generateTTS_def tts_command_def to_js_def Let_def and_then_def
      DQUOTE_def sample_env_def empty_world_def)

section \<open>Writing and reading the timed text\<close>

subsection \<open>Splitting\<close>

lemma split_not_Nil: "split sep s \<noteq> []"
  by (induction s) (auto split: list.splits)

lemma split_no_sep: "sep \<notin> set a \<Longrightarrow> split sep a = [a]"
  by (induction a) auto

lemma split_append_sep: "sep \<notin> set a \<Longrightarrow> split sep (a @ sep # b) = a # split sep b"
  by (induction a) (auto split: list.splits)

lemma split_pieces_no_sep: "p \<in> set (split sep s) \<Longrightarrow> sep \<notin> set p"
proof (induction s arbitrary: p)
  case Nil
  then show ?case by simp
next
  case (Cons c s)
  show ?case
  proof (cases "c = sep")
    case True
    with Cons show ?thesis by auto
  next
    case False
    obtain q qs where q: "split sep s = q # qs"
      using split_not_Nil by (cases "split sep s") auto
    with Cons False show ?thesis by auto
  qed
qed

lemma set_trim: "set (trim s) \<subseteq> set s"
proof -
  have "set (trim s) = set (dropWhile is_js_space (rev (dropWhile is_js_space s)))"
    by (simp add: trim_def)
  also have "\<dots> \<subseteq> set (rev (dropWhile is_js_space s))"
    by (auto dest: set_dropWhileD)
  also have "\<dots> \<subseteq> set s"
    by (auto dest: set_dropWhileD)
  finally show ?thesis .
qed

lemma script_line_shape:
  assumes "l \<in> set (script_lines script)"
  shows "l \<noteq> [] \<and> LF \<notin> set l"
proof -
  from assms obtain p where p: "p \<in> set (split LF script)" and l: "l = trim p" and ne: "l \<noteq> []"
    by (auto simp: script_lines_def)
  have "LF \<notin> set p" using p by (rule split_pieces_no_sep)
  then have "LF \<notin> set l" using set_trim[of p] l by auto
  with ne show ?thesis by simp
qed

subsection \<open>Decimal numbers\<close>

lemma digit_val_digit_char: "d < 10 \<Longrightarrow> digit_val (digit_char d) = Some d"
proof -
  assume "d < 10"
  then have "d = 0 \<or> d = 1 \<or> d = 2 \<or> d = 3 \<or> d = 4 \<or> d = 5 \<or> d = 6 \<or> d = 7
      \<or> d = 8 \<or> d = 9"
    by arith
  then show ?thesis
    by (auto simp: digit_val_def digit_char_def)
qed

lemma digit_char_in: "d < 10 \<Longrightarrow> digit_char d \<in> set ''0123456789''"
  unfolding digit_char_def by (rule nth_mem) simp

lemma set_digits: "set (digits n) \<subseteq> set ''0123456789''"
proof (induction n rule: digits.induct)
  case (1 n)
  show ?case
  proof (cases "n < 10")
    case True
    then show ?thesis
      using digit_char_in[of n] by (subst digits.simps) simp
  next
    case False
    have "n mod 10 < 10" by simp
    then have "digit_char (n mod 10) \<in> set ''0123456789''" by (rule digit_char_in)
    with False 1 show ?thesis
      by (subst digits.simps) auto
  qed
qed

lemma digits_not_Nil: "digits n \<noteq> []"
  by (subst digits.simps) simp

lemma parse_digits_snoc:
  "parse_digits acc (xs @ [c]) =
     (case parse_digits acc xs of
        None \<Rightarrow> None
      | Some a \<Rightarrow> (case digit_val c of None \<Rightarrow> None | Some d \<Rightarrow> Some (10 * a + d)))"
  by (induction xs arbitrary: acc) (auto split: option.splits)

lemma parse_digits_digits: "parse_digits 0 (digits n) = Some n"
proof (induction n rule: digits.induct)
  case (1 n)
  show ?case
  proof (cases "n < 10")
    case True
    then show ?thesis
      by (subst digits.simps) (simp add: digit_val_digit_char)
  next
    case False
    have "digit_val (digit_char (n mod 10)) = Some (n mod 10)"
      by (rule digit_val_digit_char) simp
    with False 1 show ?thesis
      by (subst digits.simps) (simp add: parse_digits_snoc)
  qed
qed

lemma parse_digits_zeros: "parse_digits 0 (replicate k CHR ''0'' @ xs) = parse_digits 0 xs"
  by (induction k) (simp_all add: digit_val_def)

lemma parse_nat_padded: "parse_nat (padStart k CHR ''0'' (digits n)) = Some n"
  by (simp add: parse_nat_def padStart_def digits_not_Nil parse_digits_zeros parse_digits_digits)

lemma parse_nat_digits: "parse_nat (digits n) = Some n"
  by (simp add: parse_nat_def digits_not_Nil parse_digits_digits)

lemma set_padded: "set (padStart k CHR ''0'' (digits n)) \<subseteq> set ''0123456789''"
  using set_digits[of n] by (auto simp: padStart_def)

subsection \<open>Time stamps\<close>

lemma fmt_nonneg:
  assumes "0 \<le> sec"
  shows "fmt sec = padStart 2 CHR ''0'' (digits (nat sec div 3600)) @ '':'' @ padStart 2 CHR ''0'' (digits (nat sec mod 3600 div 60)) @ '':'' @
                   padStart 2 CHR ''0'' (digits (nat sec mod 60)) @ '',000''"
proof -
  obtain n where n: "sec = int n" using assms by (metis nat_0_le)
  have m: "int n smod 3600 = int (n mod 3600)" "int n smod 60 = int (n mod 60)"
    by (auto simp: signed_modulo_int_def zmod_int)
  have d: "int n div 3600 = int (n div 3600)" "int (n mod 3600) div 60 = int (n mod 3600 div 60)"
    by (simp_all add: zdiv_int)
  show ?thesis
    unfolding n fmt_def Let_def m d
    by (simp add: String_of_def)
qed

lemma pad2_chars: "set (padStart 2 CHR ''0'' (digits n)) \<subseteq> set ''0123456789''"
  by (rule set_padded)

lemma pad2_no_sep:
  "CHR '':'' \<notin> set (padStart 2 CHR ''0'' (digits n))" "CHR '','' \<notin> set (padStart 2 CHR ''0'' (digits n))" "CHR '' '' \<notin> set (padStart 2 CHR ''0'' (digits n))"
  "LF \<notin> set (padStart 2 CHR ''0'' (digits n))"
  using pad2_chars[of n] by (auto simp: LF_def)

lemma parse_nat_pad2: "parse_nat (padStart 2 CHR ''0'' (digits n)) = Some n"
  by (rule parse_nat_padded)

lemma parse_nat_000: "parse_nat ''000'' = Some 0"
  by (simp add: parse_nat_def digit_val_def)

lemma seconds_recomposed:
  "3600000 * (n div 3600) + 60000 * (n mod 3600 div 60) + n mod 60 * 1000 = (n::nat) * 1000"
proof -
  define q where "q = n div 3600"
  define r where "r = n mod 3600"
  define m where "m = r div 60"
  define s where "s = r mod 60"
  have a: "n = 3600 * q + r"
    by (simp add: q_def r_def)
  have b: "r = 60 * m + s"
    by (simp add: m_def s_def)
  have c: "n mod 60 = s"
    unfolding s_def r_def by (simp add: mod_mod_cancel)
  have "3600000 * q + 60000 * m + s * 1000 = n * 1000"
    using a b by simp
  then show ?thesis
    unfolding c q_def m_def r_def .
qed

lemma parse_time_fmt:
  assumes "0 \<le> sec"
  shows "parse_time (fmt sec) = Some (nat sec * 1000)"
proof -
  let ?h = "padStart 2 CHR ''0'' (digits (nat sec div 3600))" and ?m = "padStart 2 CHR ''0'' (digits (nat sec mod 3600 div 60))"
  let ?s = "padStart 2 CHR ''0'' (digits (nat sec mod 60))"
  have f: "fmt sec = ?h @ CHR '':'' # (?m @ CHR '':'' # (?s @ '',000''))"
    by (simp add: fmt_nonneg[OF assms])
  have c: "CHR '':'' \<notin> set (?s @ '',000'')"
    using pad2_no_sep(1)[of "nat sec mod 60"] by simp
  have s1: "split CHR '':'' (fmt sec) = [?h, ?m, ?s @ '',000'']"
    unfolding f by (simp add: split_append_sep pad2_no_sep split_no_sep[OF c])
  have s2: "split CHR '','' (?s @ CHR '','' # ''000'') = [?s, ''000'']"
    by (subst split_append_sep) (simp_all add: pad2_no_sep split_no_sep)
  have s2': "split CHR '','' (?s @ '',000'') = [?s, ''000'']"
    using s2 by simp
  show ?thesis
    unfolding parse_time_def s1
    by (simp add: s2' parse_nat_pad2 parse_nat_000 seconds_recomposed)
qed

lemma fmt_no_space: "0 \<le> sec \<Longrightarrow> CHR '' '' \<notin> set (fmt sec)"
  by (simp add: fmt_nonneg pad2_no_sep)

lemma LF_not_punctuation: "LF \<noteq> CHR '':''" "LF \<noteq> CHR '',''" "LF \<noteq> CHR ''0''" "LF \<noteq> CHR '' ''"
  "LF \<noteq> CHR ''-''" "LF \<noteq> CHR ''>''"
  by (simp_all add: LF_def)

lemma fmt_no_LF: "0 \<le> sec \<Longrightarrow> LF \<notin> set (fmt sec)"
  by (simp add: fmt_nonneg pad2_no_sep LF_not_punctuation)

lemma parse_range_fmt:
  assumes "0 \<le> a" and "0 \<le> b"
  shows "parse_range (fmt a @ '' --> '' @ fmt b) = Some (nat a * 1000, nat b * 1000)"
proof -
  have e: "fmt a @ '' --> '' @ fmt b = fmt a @ CHR '' '' # (''-->'' @ CHR '' '' # fmt b)"
    by simp
  have "split CHR '' '' (fmt a @ '' --> '' @ fmt b) = [fmt a, ''-->'', fmt b]"
    unfolding e
    by (simp add: split_append_sep fmt_no_space[OF assms(1)] split_no_sep[OF fmt_no_space[OF assms(2)]])
  then show ?thesis
    by (simp add: parse_range_def parse_time_fmt assms)
qed

subsection \<open>Blocks\<close>

lemma String_of_nat: "String_of (int n) = digits n"
  by (simp add: String_of_def)

lemma digits_no_LF: "LF \<notin> set (digits n)"
  using set_digits[of n] by (auto simp: LF_def)

lemma range_no_LF:
  assumes "0 \<le> a" and "0 \<le> b"
  shows "LF \<notin> set (fmt a @ '' --> '' @ fmt b)"
  using fmt_no_LF[OF assms(1)] fmt_no_LF[OF assms(2)] by (simp add: LF_not_punctuation)

lemma split_block:
  assumes "well_formed_cue c"
  shows "split LF (srt_block c @ rest) =
           digits (cue_index c) # (fmt (cue_start c) @ '' --> '' @ fmt (cue_end c)) #
           cue_text c # [] # split LF rest"
proof -
  have r: "LF \<notin> set (fmt (cue_start c) @ '' --> '' @ fmt (cue_end c))"
    using assms by (intro range_no_LF) (simp_all add: well_formed_cue_def)
  have t: "LF \<notin> set (cue_text c)"
    using assms by (simp add: well_formed_cue_def)
  have e: "srt_block c @ rest =
           digits (cue_index c) @ LF #
             ((fmt (cue_start c) @ '' --> '' @ fmt (cue_end c)) @ LF #
                (cue_text c @ LF # (LF # rest)))"
    by (simp add: srt_block_def String_of_nat)
  show ?thesis
    unfolding e
    by (simp only: split_append_sep[OF digits_no_LF] split_append_sep[OF r]
        split_append_sep[OF t] split.simps if_True simp_thms)
qed

lemma parse_block:
  assumes "well_formed_cue c"
  shows "parse_blocks (split LF (srt_block c @ rest)) =
           (case parse_blocks (split LF rest) of
              None \<Rightarrow> None
            | Some cs \<Rightarrow> Some (in_ms c # cs))"
proof -
  have p: "parse_range (fmt (cue_start c) @ '' --> '' @ fmt (cue_end c)) =
           Some (nat (cue_start c) * 1000, nat (cue_end c) * 1000)"
    using assms by (intro parse_range_fmt) (simp_all add: well_formed_cue_def)
  have t: "cue_text c \<noteq> []"
    using assms by (simp add: well_formed_cue_def)
  show ?thesis
    unfolding split_block[OF assms] parse_blocks.simps p parse_nat_digits
    by (simp add: t in_ms_def split: option.splits)
qed

lemma parse_blocks_round_trip:
  assumes "list_all well_formed_cue cs"
  shows "parse_blocks (split LF (concat (map srt_block cs))) = Some (map in_ms cs)"
  using assms
proof (induction cs)
  case Nil
  then show ?case by simp
next
  case (Cons c cs)
  then have c: "well_formed_cue c" and IH: "parse_blocks (split LF (concat (map srt_block cs))) = Some (map in_ms cs)"
    by simp_all
  show ?case
    using parse_block[OF c, of "concat (map srt_block cs)"] by (simp add: IH)
qed

lemma cues_well_formed:
  assumes "0 < dur"
  shows "list_all well_formed_cue (cues script dur)"
  unfolding list_all_length
proof (intro allI impI)
  fix i assume "i < length (cues script dur)"
  then have i: "i < length (script_lines script)" by (simp add: length_cues)
  let ?p = "per_line dur (length (script_lines script))"
  have p: "2 \<le> ?p" by (simp add: per_line_def)
  then have s: "0 \<le> int i * ?p" by simp
  have "script_lines script ! i \<in> set (script_lines script)"
    using i by simp
  then have l: "script_lines script ! i \<noteq> [] \<and> LF \<notin> set (script_lines script ! i)"
    by (rule script_line_shape)
  show "well_formed_cue (cues script dur ! i)"
    using s p l assms by (simp add: nth_cues[OF i] cue_at_def Let_def well_formed_cue_def)
qed

lemma in_seconds_in_ms: "well_formed_cue c \<Longrightarrow> in_seconds (in_ms c) = c"
  by (simp add: in_seconds_def in_ms_def well_formed_cue_def)

lemma map_in_seconds_in_ms: "list_all well_formed_cue cs \<Longrightarrow> map in_seconds (map in_ms cs) = cs"
  by (induction cs) (simp_all add: in_seconds_in_ms)

text \<open>
  Claim C9. For every script and every whole duration above zero, reading the text
  that the builder wrote gives back the cues it computed: index, start and end (to the
  millisecond, and so in whole seconds) and text line, in both versions. Every time
  stamp ends in the milliseconds field 000.
\<close>

theorem srt_round_trip:
  assumes "0 < dur"
  shows "parseSRT (buildSRT script dur) = Some (map in_ms (cues script dur))
       \<and> parseSRT (generateSRT script dur) = Some (map in_ms (cues script dur))
       \<and> map_option (map in_seconds) (parseSRT (buildSRT script dur)) = Some (cues script dur)
       \<and> (\<forall>sec. \<exists>hms. fmt sec = hms @ '',000'' \<and> formatTime sec = hms @ '',000'')"
proof -
  have w: "list_all well_formed_cue (cues script dur)"
    using assms by (rule cues_well_formed)
  have a: "parseSRT (buildSRT script dur) = Some (map in_ms (cues script dur))"
    unfolding parseSRT_def buildSRT_concat by (rule parse_blocks_round_trip[OF w])
  have b: "\<forall>sec. \<exists>hms. fmt sec = hms @ '',000'' \<and> formatTime sec = hms @ '',000''"
    by (simp add: formatTime_eq_fmt fmt_def Let_def)
  have c: "map_option (map in_seconds) (parseSRT (buildSRT script dur)) = Some (cues script dur)"
    unfolding a by (simp only: option.map map_in_seconds_in_ms[OF w])
  show ?thesis
    using a b c by (simp only: generateSRT_eq_buildSRT simp_thms)
qed

text \<open>The theorem at the script "Hello world." / "This is a test." and the duration 10.\<close>

theorem srt_round_trip_witness:
  "(0::int) < 10
   \<and> parseSRT (buildSRT (''Hello world.'' @ [LF] @ ''This is a test.'') 10) =
       Some [\<lparr>tc_index = 1, tc_start_ms = 0, tc_end_ms = 5000, tc_text = ''Hello world.''\<rparr>,
             \<lparr>tc_index = 2, tc_start_ms = 5000, tc_end_ms = 10000, tc_text = ''This is a test.''\<rparr>]"
proof -
  have l: "script_lines (''Hello world.'' @ [LF] @ ''This is a test.'') =
           [''Hello world.'', ''This is a test.'']"
    by (simp add: script_lines_def trim_def is_js_space_def LF_def)
  have c: "cues (''Hello world.'' @ [LF] @ ''This is a test.'') 10 =
     [\<lparr>cue_index = 1, cue_start = 0, cue_end = 5, cue_text = ''Hello world.''\<rparr>,
      \<lparr>cue_index = 2, cue_start = 5, cue_end = 10, cue_text = ''This is a test.''\<rparr>]"
    unfolding cues_def l
    by (simp add: Let_def per_line_def cue_at_def enumerate_eq_zip upt_rec)
  have "parseSRT (buildSRT (''Hello world.'' @ [LF] @ ''This is a test.'') 10) =
        Some (map in_ms (cues (''Hello world.'' @ [LF] @ ''This is a test.'') 10))"
    using srt_round_trip [of 10 "''Hello world.'' @ [LF] @ ''This is a test.''"] by simp
  then show ?thesis
    unfolding c by (simp add: in_ms_def)
qed

end
